theory Spec2Isabelle
  imports Main
begin

section \<open>Values shared by the two ingestion scripts and the HTTP service\<close>

text \<open>
  A raised Python exception, with the text \<open>str(e)\<close> the scripts interpolate into
  their log lines. \<open>BulkIndexError\<close> also carries its \<open>errors\<close> list (each item
  rendered as text); \<open>NotFoundError\<close> is what the store client raises for a missing
  document. Every one of them is an instance of \<open>Exception\<close>.
\<close>

datatype exn =
    FileNotFoundError string
  | BulkIndexError string "string list"
  | NotFoundError string
  | Exception string

fun str_exn :: "exn \<Rightarrow> string" where
  "str_exn (FileNotFoundError m) = m"
| "str_exn (BulkIndexError m errs) = m"
| "str_exn (NotFoundError m) = m"
| "str_exn (Exception m) = m"

text \<open>\<open>str(n)\<close> for a non-negative integer: its decimal digits.\<close>

definition digit :: "nat \<Rightarrow> char" where
  "digit d = char_of (48 + d)"

fun str_nat :: "nat \<Rightarrow> string" where
  "str_nat n = (if n < 10 then [digit n] else str_nat (n div 10) @ [digit (n mod 10)])"

declare str_nat.simps [simp del]

text \<open>
  \<open>str.isspace()\<close>. A \<open>char\<close> stands for a code point below 256; the whitespace
  code points of Python in that range are 9 to 13, 28 to 32, 133 and 160. The method is
  false on the empty string.
\<close>

definition space_char :: "char \<Rightarrow> bool" where
  "space_char c =
     (let n = (of_char c :: nat)
      in (9 \<le> n \<and> n \<le> 13) \<or> (28 \<le> n \<and> n \<le> 32) \<or> n = 133 \<or> n = 160)"

definition isspace :: "string \<Rightarrow> bool" where
  "isspace s = (s \<noteq> [] \<and> list_all space_char s)"

text \<open>The test \<open>not s or s.isspace()\<close> both scripts apply to texts and chunks.\<close>

definition no_text :: "string \<Rightarrow> bool" where
  "no_text s = (s = [] \<or> isspace s)"

text \<open>
  Python dictionaries sent to the store are association lists in key order; a value is a
  string, a vector (the embedding, a list of floats whose type is left open as \<open>'v\<close>),
  \<open>None\<close>, or a nested dictionary.
\<close>

datatype 'v json =
    Str string
  | Vec "'v list"
  | Null
  | Dict "(string \<times> 'v json) list"

type_synonym 'v action = "(string \<times> 'v json) list"

datatype level = INFO | WARNING | ERROR

type_synonym log_entry = "level \<times> string"

section \<open>PDF text extraction\<close>

text \<open>
  What \<open>PyPDF2.PdfReader\<close> shows of a PDF: whether it is encrypted, whether
  \<open>decrypt('')\<close> raises, and for each page what \<open>extract_text()\<close> does (return a
  string, possibly empty, or raise).
\<close>

record pdf_reader =
  is_encrypted :: bool
  decrypt :: "exn option"
  pages :: "(exn + string) list"

text \<open>
  The loop \<open>for page in reader.pages\<close> of both \<open>extract_text_from_pdf\<close> and
  \<open>parse_pdf\<close>. It stands inside the single \<open>try\<close> of the function and has no
  handler of its own: the first page whose \<open>extract_text()\<close> raises ends the loop, and
  the variable \<open>text\<close> keeps what was appended before. The result is that text and the
  exception that left the loop, if any.
\<close>

fun extract_pages :: "(exn + string) list \<Rightarrow> string \<Rightarrow> string \<times> exn option" where
  "extract_pages [] text = (text, None)"
| "extract_pages (Inl e # ps) text = (text, Some e)"
| "extract_pages (Inr page_text # ps) text =
     extract_pages ps (if page_text \<noteq> [] then text @ page_text @ ''\<newline>'' else text)"

text \<open>
  \<open>extract_text_from_pdf(file_bytes, file_path_str)\<close> of index-in-elastic-cloud-old.py.
  \<open>reader\<close> is the outcome of \<open>PyPDF2.PdfReader(io.BytesIO(file_bytes))\<close>;
  \<open>file_name\<close> is \<open>Path(file_path_str).name\<close>. Returns the text and the log lines.
\<close>

definition extract_text_from_pdf ::
  "(exn + pdf_reader) \<Rightarrow> string \<Rightarrow> string \<Rightarrow> string \<times> log_entry list" where
  "extract_text_from_pdf reader file_path_str file_name =
     (case reader of
        Inl e \<Rightarrow>
          ('''', [(ERROR, ''Error extracting text from PDF '' @ file_name @ '': '' @ str_exn e)])
      | Inr r \<Rightarrow>
          (case (if is_encrypted r then decrypt r else None) of
             Some decrypt_error \<Rightarrow>
               ('''', [(WARNING, ''Skipping encrypted PDF (password needed): '' @ file_path_str
                                  @ '' - '' @ str_exn decrypt_error)])
           | None \<Rightarrow>
               (case extract_pages (pages r) '''' of
                  (text, None) \<Rightarrow> (text, [])
                | (text, Some e) \<Rightarrow>
                    (text, [(ERROR, ''Error extracting text from PDF '' @ file_name @ '': ''
                                    @ str_exn e)]))))"

text \<open>
  \<open>parse_pdf(file_path)\<close> of delete\_index.py. \<open>reader\<close> is the outcome of opening the
  file and of \<open>PyPDF2.PdfReader(f)\<close> on it.
\<close>

definition parse_pdf ::
  "(exn + pdf_reader) \<Rightarrow> string \<Rightarrow> string \<Rightarrow> string \<times> log_entry list" where
  "parse_pdf reader file_path file_name =
     (case reader of
        Inl e \<Rightarrow> ('''', [(ERROR, ''Error parsing PDF '' @ file_name @ '': '' @ str_exn e)])
      | Inr r \<Rightarrow>
          (case (if is_encrypted r then decrypt r else None) of
             Some decrypt_error \<Rightarrow>
               ('''', [(WARNING, ''Skipping encrypted PDF (password needed): '' @ file_path)])
           | None \<Rightarrow>
               (case extract_pages (pages r) '''' of
                  (text, None) \<Rightarrow> (text, [])
                | (text, Some e) \<Rightarrow>
                    (text, [(ERROR, ''Error parsing PDF '' @ file_name @ '': '' @ str_exn e)]))))"

section \<open>Files, the environment and the state of an ingestion run\<close>

text \<open>
  One entry of \<open>docs_path.rglob('*')\<close>, with everything the scripts read of it:
  \<open>file_name\<close> is \<open>file_path.name\<close>, \<open>relative_path\<close> is
  \<open>str(file_path.relative_to(docs_path).parent)\<close>, \<open>relative_file\<close> is the text of
  \<open>relative_path / file_name\<close>, \<open>suffix\<close> is \<open>file_path.suffix.lower()\<close>,
  \<open>path_str\<close> is \<open>str(file_path)\<close>, and \<open>st_mtime\<close> is the text an f-string prints
  for \<open>file_path.stat().st_mtime\<close> (the scripts only ever print it; the file is taken
  not to change during a run). The remaining fields give the outcome of each way the
  scripts read the file: \<open>open(.., "rb").read()\<close>, the UTF-8 read with
  \<open>errors='ignore'\<close>, the strict UTF-8 read, the paragraph texts of
  \<open>docx.Document(..)\<close>, and \<open>PyPDF2.PdfReader\<close> on the file's bytes.
\<close>

record source_file =
  is_file :: bool
  file_name :: string
  relative_path :: string
  relative_file :: string
  suffix :: string
  path_str :: string
  st_mtime :: string
  read_bytes :: "exn + string"
  read_text_ignore :: "exn + string"
  read_text_strict :: "exn + string"
  docx_paragraphs :: "exn + string list"
  pdf :: "exn + pdf_reader"

text \<open>
  The collaborators of a run, none of which is code of the repository: the embedding
  model (\<open>embedding_model.encode(chunk).tolist()\<close>, which may raise), the text splitter
  (\<open>text_splitter.split_text\<close>), the bulk helper (\<open>bulk(..)\<close>, given the number of
  requests sent before so that the store may answer the same batch differently at
  different times; it returns \<open>(success, failed)\<close> or raises), \<open>base64.b64encode\<close>,
  the clock reading \<open>time.strftime(.., time.gmtime())\<close>, and the environment variables.
\<close>

record 'v env =
  ES_INDEX_NAME :: string
  TARGET_USER_ID :: string
  encode :: "string \<Rightarrow> exn + 'v list"
  split_text :: "string \<Rightarrow> exn + string list"
  bulk :: "nat \<Rightarrow> 'v action list \<Rightarrow> exn + nat \<times> string list"
  b64encode :: "string \<Rightarrow> string"
  now :: string

text \<open>A request sent to the document store through the client.\<close>

datatype 'v es_call =
    Ping
  | IndicesExists string
  | IndicesCreate string
  | Bulk "'v action list"

text \<open>
  The module-level variables of a script, with the log written so far and the requests
  sent so far (every call of \<open>bulk\<close> is recorded, whether it returns or raises).
\<close>

record 'v state =
  all_actions :: "'v action list"
  file_count :: nat
  total_chunks :: nat
  chunks_embedded_count :: nat
  log :: "log_entry list"
  calls :: "'v es_call list"

definition init_state :: "'v state" where
  "init_state = \<lparr>all_actions = [], file_count = 0, total_chunks = 0,
                  chunks_embedded_count = 0, log = [], calls = []\<rparr>"

definition logging :: "log_entry list \<Rightarrow> 'v state \<Rightarrow> 'v state" where
  "logging entries st = st\<lparr>log := log st @ entries\<rparr>"

text \<open>
  What the process finds when it starts: the two credentials (\<open>os.getenv\<close>), whether
  the documents folder is a directory, whether building the client raises, what
  \<open>es_client.ping()\<close> answers, whether loading the embedding model raises, what
  \<open>es_client.indices.exists\<close> and \<open>es_client.indices.create\<close> do; and
  \<open>elapsed\<close>, the running time as the last log line prints it.
\<close>

record host =
  ELASTIC_CLOUD_ID :: "string option"
  ELASTIC_API_KEY :: "string option"
  docs_is_dir :: bool
  connect :: "exn option"
  ping :: bool
  load_model :: "exn option"
  indices_exists :: "exn + bool"
  indices_create :: "exn option"
  elapsed :: string

text \<open>How the process ends: \<open>exit(1)\<close>, the end of the script, or an uncaught exception.\<close>

datatype ending = Exit nat | Finished | Uncaught exn

definition falsy :: "string option \<Rightarrow> bool" where
  "falsy v = (case v of None \<Rightarrow> True | Some s \<Rightarrow> s = [])"

section \<open>index-in-elastic-cloud-old.py\<close>

definition EMBEDDING_DIM :: nat where
  "EMBEDDING_DIM = 384"

definition text_suffixes :: "string list" where
  "text_suffixes = [''.txt'', ''.md'', ''.py'', ''.js'', ''.ts'', ''.html'', ''.css'',
                    ''.json'', ''.yaml'', ''.yml'']"

text \<open>The two \<open>except\<close> clauses of \<open>get_file_content_and_type\<close>.\<close>

fun read_error :: "source_file \<Rightarrow> exn \<Rightarrow> log_entry list" where
  "read_error f (FileNotFoundError m) = [(ERROR, ''File not found: '' @ path_str f)]"
| "read_error f e = [(ERROR, ''Error reading '' @ file_name f @ '': '' @ str_exn e)]"

text \<open>
  \<open>get_file_content_and_type(file_path)\<close>: the content (bytes of a PDF, text otherwise)
  and its type, both \<open>None\<close> after an exception or for an unsupported suffix.
\<close>

definition get_file_content_and_type ::
  "source_file \<Rightarrow> (string option \<times> string option) \<times> log_entry list" where
  "get_file_content_and_type f =
     (if suffix f = ''.pdf'' then
        (case read_bytes f of
           Inl e \<Rightarrow> ((None, None), read_error f e)
         | Inr content \<Rightarrow> ((Some content, Some ''pdf_base64''), []))
      else if suffix f = ''.docx'' then
        (case docx_paragraphs f of
           Inl e \<Rightarrow> ((None, None), read_error f e)
         | Inr paras \<Rightarrow>
             ((Some (concat (map (\<lambda>para. para @ ''\<newline>'') paras)), Some ''text''), []))
      else if suffix f \<in> set text_suffixes then
        (case read_text_ignore f of
           Inl e \<Rightarrow> ((None, None), read_error f e)
         | Inr content \<Rightarrow> ((Some content, Some ''text''), []))
      else ((None, None), [(WARNING, ''Skipping unsupported file type: '' @ file_name f)]))"

text \<open>The identifiers \<open>doc_id\<close> and \<open>chunk_id\<close> the script builds with f-strings.\<close>

definition doc_id :: "string \<Rightarrow> string \<Rightarrow> string" where
  "doc_id rel mtime = ''file-'' @ rel @ ''-'' @ mtime"

definition chunk_id :: "string \<Rightarrow> string \<Rightarrow> nat \<Rightarrow> string" where
  "chunk_id rel mtime i = ''chunk-'' @ rel @ ''-'' @ mtime @ ''-'' @ str_nat i"

text \<open>The action of the whitespace branch: metadata and full content, no chunk.\<close>

definition file_action :: "'v env \<Rightarrow> source_file \<Rightarrow> string \<Rightarrow> string \<Rightarrow> 'v action" where
  "file_action env f full_content_for_es content_type =
     [(''_index'', Str (ES_INDEX_NAME env)),
      (''_id'', Str (doc_id (relative_file f) (st_mtime f))),
      (''_source'', Dict
         [(''file_name'', Str (file_name f)),
          (''path'', Str (relative_path f)),
          (''content'', Str full_content_for_es),
          (''content_type'', Str content_type),
          (''timestamp'', Str (now env)),
          (''chunk_text'', Null),
          (''chunk_vector'', Null)])]"

text \<open>The action built for chunk \<open>i\<close> once its vector is there.\<close>

definition chunk_action ::
  "'v env \<Rightarrow> source_file \<Rightarrow> string \<Rightarrow> string \<Rightarrow> nat \<Rightarrow> string \<Rightarrow> 'v list \<Rightarrow> 'v action" where
  "chunk_action env f full_content_for_es content_type i chunk vector =
     [(''_index'', Str (ES_INDEX_NAME env)),
      (''_id'', Str (chunk_id (relative_file f) (st_mtime f) i)),
      (''_source'', Dict
         [(''file_name'', Str (file_name f)),
          (''path'', Str (relative_path f)),
          (''content'', Str full_content_for_es),
          (''content_type'', Str content_type),
          (''chunk_text'', Str chunk),
          (''chunk_vector'', Vec vector),
          (''timestamp'', Str (now env))])]"

definition embed_error :: "nat \<Rightarrow> string \<Rightarrow> exn \<Rightarrow> log_entry" where
  "embed_error i fname e_embed =
     (ERROR, ''  Error embedding chunk '' @ str_nat (i + 1) @ '' of '' @ fname @ '': ''
             @ str_exn e_embed @ ''. Skipping chunk.'')"

text \<open>
  One pass of the body of \<open>for i, chunk in enumerate(chunks)\<close>: an empty chunk is
  skipped with a warning; otherwise the chunk is embedded and its action appended, and
  an exception of the \<open>try\<close> block is logged and the loop goes on.
\<close>

definition idx_chunk ::
  "'v env \<Rightarrow> source_file \<Rightarrow> string \<Rightarrow> string \<Rightarrow> nat \<Rightarrow> string \<Rightarrow> 'v state \<Rightarrow> 'v state" where
  "idx_chunk env f full_content_for_es content_type i chunk st =
     (if no_text chunk then
        logging [(WARNING, ''  Skipping empty chunk '' @ str_nat (i + 1) @ '' for ''
                           @ file_name f @ ''.'')] st
      else
        (case encode env chunk of
           Inr vector \<Rightarrow>
             st\<lparr>all_actions := all_actions st
                    @ [chunk_action env f full_content_for_es content_type i chunk vector],
                chunks_embedded_count := chunks_embedded_count st + 1\<rparr>
         | Inl e_embed \<Rightarrow> logging [embed_error i (file_name f) e_embed] st))"

fun idx_chunks ::
  "'v env \<Rightarrow> source_file \<Rightarrow> string \<Rightarrow> string \<Rightarrow> nat \<Rightarrow> string list \<Rightarrow> 'v state \<Rightarrow> 'v state" where
  "idx_chunks env f full_content_for_es content_type i [] st = st"
| "idx_chunks env f full_content_for_es content_type i (chunk # chunks) st =
     idx_chunks env f full_content_for_es content_type (Suc i) chunks
       (idx_chunk env f full_content_for_es content_type i chunk st)"

text \<open>
  The block under \<open>if len(all_actions) >= 500\<close>: one call of \<open>bulk\<close> on the whole
  buffer. Each of its three exits (the call returns, \<open>BulkIndexError\<close>, any other
  exception) ends with \<open>all_actions = []\<close>.
\<close>

fun idx_bulk_error :: "exn \<Rightarrow> log_entry" where
  "idx_bulk_error (BulkIndexError m errors) =
     (ERROR, ''BULK INDEXING ERROR (stopping batch): Processed: '' @ str_nat (length errors)
             @ '' docs, Failed: '' @ str_nat (length errors) @ ''. First error: ''
             @ (case errors of [] \<Rightarrow> ''N/A'' | e # _ \<Rightarrow> e))"
| "idx_bulk_error e_bulk_other =
     (ERROR, ''Unexpected error during bulk indexing batch: '' @ str_exn e_bulk_other)"

definition idx_flush :: "'v env \<Rightarrow> 'v state \<Rightarrow> 'v state" where
  "idx_flush env st =
     (let st1 = logging [(INFO, ''Indexing batch of '' @ str_nat (length (all_actions st))
                                @ '' actions...'')] st;
          st2 = st1\<lparr>calls := calls st1 @ [Bulk (all_actions st)]\<rparr>
      in case bulk env (length (calls st)) (all_actions st) of
           Inr (success, failed) \<Rightarrow>
             (logging ((INFO, ''  Batch Indexing: '' @ str_nat success @ '' succeeded.'')
                       # (if failed \<noteq> [] then
                            [(ERROR, ''  Batch Indexing Failed Docs: ''
                                     @ str_nat (length failed))]
                          else [])) st2)\<lparr>all_actions := []\<rparr>
         | Inl e_bulk \<Rightarrow> (logging [idx_bulk_error e_bulk] st2)\<lparr>all_actions := []\<rparr>)"

text \<open>
  From \<open>text_splitter.split_text\<close> to the batch check: the part of the loop body a file
  reaches when it has text to chunk.
\<close>

definition idx_split ::
  "'v env \<Rightarrow> source_file \<Rightarrow> string \<Rightarrow> string \<Rightarrow> string \<Rightarrow> 'v state \<Rightarrow> 'v state" where
  "idx_split env f full_content_for_es content_type text_for_chunking st =
     (case split_text env text_for_chunking of
        Inl e_split \<Rightarrow>
          logging [(ERROR, ''  Error splitting text for '' @ file_name f @ '': ''
                           @ str_exn e_split @ ''. Skipping file.'')] st
      | Inr chunks \<Rightarrow>
          if chunks = [] then
            logging [(WARNING, ''  Text splitting resulted in zero chunks for '' @ file_name f
                               @ ''. Skipping chunk generation.'')] st
          else
            (let st1 = logging [(INFO, ''  Split into '' @ str_nat (length chunks)
                                       @ '' chunks.'')] st;
                 st2 = idx_chunks env f full_content_for_es content_type 0 chunks
                         (st1\<lparr>chunks_embedded_count := 0\<rparr>);
                 st3 = st2\<lparr>total_chunks := total_chunks st2 + chunks_embedded_count st2\<rparr>
             in if length (all_actions st3) \<ge> 500 then idx_flush env st3 else st3))"

text \<open>
  The block \<open># --- Prepare Full Content Field ---\<close> for the two content types there
  are: \<open>full_content_for_es\<close>, \<open>text_for_chunking\<close> and the log lines of the PDF
  extraction.
\<close>

definition idx_prepare ::
  "'v env \<Rightarrow> source_file \<Rightarrow> string \<Rightarrow> string \<Rightarrow> string \<times> string \<times> log_entry list" where
  "idx_prepare env f full_content_raw content_type =
     (if content_type = ''pdf_base64'' then
        (let (text_for_chunking, pdf_log) =
               extract_text_from_pdf (pdf f) (path_str f) (file_name f)
         in (b64encode env full_content_raw, text_for_chunking, pdf_log))
      else (full_content_raw, full_content_raw, []))"

text \<open>
  From that block on: a content type other than the two is skipped; a text that is empty
  or all whitespace gets one metadata action and the file is left with \<open>continue\<close>,
  before the batch check.
\<close>

definition idx_content ::
  "'v env \<Rightarrow> source_file \<Rightarrow> string \<Rightarrow> string \<Rightarrow> 'v state \<Rightarrow> 'v state" where
  "idx_content env f full_content_raw content_type st =
     (if content_type \<noteq> ''pdf_base64'' \<and> content_type \<noteq> ''text'' then
        logging [(WARNING, ''  Internal error: Unexpected content_type '' @ [CHR 0x27]
                           @ content_type @ [CHR 0x27] @ '' for '' @ file_name f
                           @ ''. Skipping.'')] st
      else
        (let (full_content_for_es, text_for_chunking, pdf_log) =
               idx_prepare env f full_content_raw content_type;
             st1 = logging pdf_log st
         in if no_text text_for_chunking then
              (logging [(WARNING, ''  No text available for chunking in '' @ file_name f
                                  @ ''. Indexing document without chunks.'')] st1)
                \<lparr>all_actions := all_actions st1
                                 @ [file_action env f full_content_for_es content_type]\<rparr>
            else idx_split env f full_content_for_es content_type text_for_chunking st1))"

text \<open>The body of \<open>for file_path in docs_path.rglob('*')\<close>.\<close>

definition idx_file :: "'v env \<Rightarrow> source_file \<Rightarrow> 'v state \<Rightarrow> 'v state" where
  "idx_file env f st =
     (if \<not> is_file f then st
      else
        (let st1 = (logging [(INFO, ''Processing: '' @ relative_file f)] st)
                     \<lparr>file_count := file_count st + 1\<rparr>;
             ((full_content_raw, content_type), read_log) = get_file_content_and_type f;
             st2 = logging read_log st1
         in case (full_content_raw, content_type) of
              (Some raw, Some ct) \<Rightarrow>
                if raw = [] \<or> ct = [] then
                  logging [(WARNING, ''  Skipping '' @ file_name f
                                     @ '' due to read error or unsupported type.'')] st2
                else idx_content env f raw ct st2
            | _ \<Rightarrow>
                logging [(WARNING, ''  Skipping '' @ file_name f
                                   @ '' due to read error or unsupported type.'')] st2))"

fun idx_scan :: "'v env \<Rightarrow> source_file list \<Rightarrow> 'v state \<Rightarrow> 'v state" where
  "idx_scan env [] st = st"
| "idx_scan env (f # files) st = idx_scan env files (idx_file env f st)"

text \<open>
  Step 7, \<open>if all_actions:\<close> after the loop: the final call of \<open>bulk\<close>. Nothing
  follows it but log lines, and \<open>all_actions\<close> is not assigned again.
\<close>

fun idx_final_bulk_error :: "exn \<Rightarrow> log_entry" where
  "idx_final_bulk_error (BulkIndexError m errors) =
     (ERROR, ''FINAL BULK INDEXING ERROR: Processed: '' @ str_nat (length errors)
             @ '' docs, Failed: '' @ str_nat (length errors) @ ''. First error: ''
             @ (case errors of [] \<Rightarrow> ''N/A'' | e # _ \<Rightarrow> e))"
| "idx_final_bulk_error e_bulk_other =
     (ERROR, ''Unexpected error during final bulk indexing: '' @ str_exn e_bulk_other)"

definition idx_final :: "'v env \<Rightarrow> 'v state \<Rightarrow> 'v state" where
  "idx_final env st =
     (if all_actions st = [] then st
      else
        (let st1 = logging [(INFO, ''Indexing final batch of ''
                                   @ str_nat (length (all_actions st)) @ '' actions...'')] st;
             st2 = st1\<lparr>calls := calls st1 @ [Bulk (all_actions st)]\<rparr>
         in case bulk env (length (calls st)) (all_actions st) of
              Inr (success, failed) \<Rightarrow>
                logging ((INFO, ''  Final Batch Indexing: '' @ str_nat success
                                @ '' succeeded.'')
                         # (if failed \<noteq> [] then
                              [(ERROR, ''  Final Batch Indexing Failed Docs: ''
                                       @ str_nat (length failed))]
                            else [])) st2
            | Inl e_bulk \<Rightarrow> logging [idx_final_bulk_error e_bulk] st2))"

text \<open>Steps 6 and 7 of the script, on the files \<open>rglob\<close> yields, in its order.\<close>

definition idx_ingest :: "'v env \<Rightarrow> source_file list \<Rightarrow> 'v state \<Rightarrow> 'v state" where
  "idx_ingest env files st =
     idx_final env
       (idx_scan env files
          (logging [(INFO, ''Scanning documents in '' @ [CHR 0x27] @ ''./fixed_documents''
                           @ [CHR 0x27] @ '' (including subdirectories)...'')] st))"

text \<open>
  Steps 1 to 5: configuration, connection, embedding model, index. The result is the
  state when step 6 starts, or the state at \<open>exit(1)\<close>.
\<close>

definition idx_startup :: "host \<Rightarrow> 'v env \<Rightarrow> 'v state + 'v state" where
  "idx_startup h env =
     (let st0 = logging [(INFO, ''--- Starting Document Indexing Script ---'')] init_state
      in if falsy (ELASTIC_CLOUD_ID h) \<or> falsy (ELASTIC_API_KEY h) then
           Inl (logging [(ERROR, ''Elastic Cloud ID or API Key not found. Check .env or ''
                                 @ ''environment variables. Exiting.'')] st0)
         else if \<not> docs_is_dir h then
           Inl (logging [(ERROR, ''Documents folder '' @ [CHR 0x27] @ ''./fixed_documents''
                                 @ [CHR 0x27] @ '' not found. Exiting.'')] st0)
         else
           (let st1 = logging [(INFO, ''Connecting to Elasticsearch...'')] st0
            in case connect h of
                 Some e \<Rightarrow>
                   Inl (logging [(ERROR, ''Failed to connect to Elasticsearch: '' @ str_exn e)]
                          st1)
               | None \<Rightarrow>
                   (let st2 = st1\<lparr>calls := calls st1 @ [Ping]\<rparr>
                    in if \<not> ping h then
                         Inl (logging [(ERROR, ''Failed to connect to Elasticsearch: ''
                                               @ ''Ping failed.'')] st2)
                       else
                         (let st3 = logging
                                [(INFO, ''Connected to Elasticsearch successfully.''),
                                 (INFO, ''Loading embedding model: ''
                                        @ ''sentence-transformers/all-MiniLM-L6-v2''
                                        @ ''...'')] st2
                          in case load_model h of
                               Some e \<Rightarrow>
                                 Inl (logging [(ERROR, ''Failed to load embedding model: ''
                                                       @ str_exn e)] st3)
                             | None \<Rightarrow>
                                 (let st4 = logging [(INFO, ''Embedding model loaded.'')] st3;
                                      st5 = st4\<lparr>calls := calls st4
                                                  @ [IndicesExists (ES_INDEX_NAME env)]\<rparr>;
                                      index_error = (\<lambda>e st.
                                        Inl (logging [(ERROR, ''Error creating/checking index ''
                                               @ [CHR 0x27] @ ES_INDEX_NAME env @ [CHR 0x27]
                                               @ '': '' @ str_exn e)] st))
                                  in case indices_exists h of
                                       Inl e \<Rightarrow> index_error e st5
                                     | Inr True \<Rightarrow>
                                         Inr (logging [(INFO, ''Index '' @ [CHR 0x27]
                                                @ ES_INDEX_NAME env @ [CHR 0x27]
                                                @ '' already exists.'')] st5)
                                     | Inr False \<Rightarrow>
                                         (let st6 = logging [(INFO, ''Creating index ''
                                                       @ [CHR 0x27] @ ES_INDEX_NAME env
                                                       @ [CHR 0x27] @ '' with mapping...'')] st5;
                                              st7 = st6\<lparr>calls := calls st6
                                                          @ [IndicesCreate (ES_INDEX_NAME env)]\<rparr>
                                          in case indices_create h of
                                               Some e \<Rightarrow> index_error e st7
                                             | None \<Rightarrow> Inr st7))))))"

text \<open>The whole script: start, scan, final batch, closing log lines.\<close>

definition idx_main :: "host \<Rightarrow> 'v env \<Rightarrow> source_file list \<Rightarrow> ending \<times> 'v state" where
  "idx_main h env files =
     (case idx_startup h env of
        Inl st \<Rightarrow> (Exit 1, st)
      | Inr st \<Rightarrow>
          (let st' = idx_ingest env files st
           in (Finished,
               logging
                 [(INFO, ''--- Document Indexing Script Finished ---''),
                  (INFO, ''Processed '' @ str_nat (file_count st') @ '' files found in ''
                         @ [CHR 0x27] @ ''./fixed_documents'' @ [CHR 0x27] @ ''.''),
                  (INFO, ''Generated and attempted to index '' @ str_nat (total_chunks st')
                         @ '' chunks.''),
                  (INFO, ''Total time: '' @ elapsed h @ '' seconds.'')] st')))"

section \<open>delete\_index.py\<close>

definition supported_suffixes :: "string list" where
  "supported_suffixes = [''.pdf'', ''.docx'', ''.txt'', ''.md'']"

text \<open>\<open>parse_docx(file_path)\<close> and \<open>parse_text_file(file_path)\<close>.\<close>

definition parse_docx :: "source_file \<Rightarrow> string \<times> log_entry list" where
  "parse_docx f =
     (case docx_paragraphs f of
        Inl e \<Rightarrow> ('''', [(ERROR, ''Error parsing DOCX '' @ file_name f @ '': '' @ str_exn e)])
      | Inr paras \<Rightarrow> (concat (map (\<lambda>para. para @ ''\<newline>'') paras), []))"

definition parse_text_file :: "source_file \<Rightarrow> string \<times> log_entry list" where
  "parse_text_file f =
     (case read_text_strict f of
        Inl e \<Rightarrow>
          ('''', [(ERROR, ''Error parsing text/markdown file '' @ file_name f @ '': ''
                          @ str_exn e)])
      | Inr text \<Rightarrow> (text, []))"

text \<open>
  The block \<open># --- Parsing Logic ---\<close>, for a suffix among the supported ones.
  \<open>parse_pdf\<close> opens the file itself, inside its \<open>try\<close>.
\<close>

definition del_parse :: "source_file \<Rightarrow> string \<times> log_entry list" where
  "del_parse f =
     (if suffix f = ''.pdf'' then
        parse_pdf (case read_bytes f of Inl e \<Rightarrow> Inl e | Inr _ \<Rightarrow> pdf f)
          (path_str f) (file_name f)
      else if suffix f = ''.docx'' then parse_docx f
      else parse_text_file f)"

text \<open>The dictionary \<open>doc\<close> built for a chunk: no \<open>"_id"\<close> key.\<close>

definition del_doc :: "'v env \<Rightarrow> string \<Rightarrow> string \<Rightarrow> 'v list \<Rightarrow> 'v action" where
  "del_doc env fname chunk vector =
     [(''_index'', Str ''rag_documents''),
      (''_source'', Dict
         [(''user_id'', Str (TARGET_USER_ID env)),
          (''file_name'', Str fname),
          (''chunk_text'', Str chunk),
          (''chunk_vector'', Vec vector)])]"

definition del_embed_error :: "nat \<Rightarrow> string \<Rightarrow> exn \<Rightarrow> log_entry" where
  "del_embed_error i fname e_embed =
     (ERROR, ''Error embedding chunk '' @ str_nat (i + 1) @ '' of '' @ fname @ '': ''
             @ str_exn e_embed)"

text \<open>One pass of the body of \<open>for i, chunk in enumerate(chunks)\<close>.\<close>

definition del_chunk :: "'v env \<Rightarrow> source_file \<Rightarrow> nat \<Rightarrow> string \<Rightarrow> 'v state \<Rightarrow> 'v state" where
  "del_chunk env f i chunk st =
     (if no_text chunk then st
      else
        (case encode env chunk of
           Inr vector \<Rightarrow>
             st\<lparr>all_actions := all_actions st @ [del_doc env (file_name f) chunk vector]\<rparr>
         | Inl e_embed \<Rightarrow> logging [del_embed_error i (file_name f) e_embed] st))"

fun del_chunks :: "'v env \<Rightarrow> source_file \<Rightarrow> nat \<Rightarrow> string list \<Rightarrow> 'v state \<Rightarrow> 'v state" where
  "del_chunks env f i [] st = st"
| "del_chunks env f i (chunk # chunks) st =
     del_chunks env f (Suc i) chunks (del_chunk env f i chunk st)"

text \<open>
  The block under \<open>if len(all_actions) >= 1000\<close>. \<open>all_actions = []\<close> is the last
  statement of the \<open>try\<close> block; the \<open>except\<close> clause only logs.
\<close>

definition del_flush :: "'v env \<Rightarrow> 'v state \<Rightarrow> 'v state" where
  "del_flush env st =
     (let st1 = logging [(INFO, ''Indexing batch of '' @ str_nat (length (all_actions st))
                                @ '' actions...'')] st;
          st2 = st1\<lparr>calls := calls st1 @ [Bulk (all_actions st)]\<rparr>
      in case bulk env (length (calls st)) (all_actions st) of
           Inr (success, failed) \<Rightarrow>
             (logging ((INFO, ''  Batch Indexing: '' @ str_nat success @ '' succeeded.'')
                       # (if failed \<noteq> [] then
                            [(ERROR, ''  Batch Indexing Failed Docs: ''
                                     @ str_nat (length failed))]
                          else [])) st2)\<lparr>all_actions := []\<rparr>
         | Inl e_bulk \<Rightarrow>
             logging [(ERROR, ''Error during bulk indexing batch: '' @ str_exn e_bulk)] st2)"

text \<open>
  The body of \<open>for file_path in docs_path.rglob('*')\<close>. \<open>split_text\<close> is called
  outside any \<open>try\<close>: an exception of it leaves the script, and is returned beside the
  state reached.
\<close>

definition del_file :: "'v env \<Rightarrow> source_file \<Rightarrow> 'v state \<Rightarrow> 'v state \<times> exn option" where
  "del_file env f st =
     (if \<not> (is_file f \<and> suffix f \<in> set supported_suffixes) then (st, None)
      else
        (let st1 = (logging [(INFO, ''Processing file: '' @ file_name f)] st)
                     \<lparr>file_count := file_count st + 1\<rparr>;
             (text, parse_log) = del_parse f;
             st2 = logging parse_log st1
         in if no_text text then
              (logging [(WARNING, ''No text extracted from '' @ file_name f
                                  @ ''. Skipping.'')] st2, None)
            else
              (case split_text env text of
                 Inl e \<Rightarrow> (st2, Some e)
               | Inr chunks \<Rightarrow>
                   if chunks = [] then
                     (logging [(WARNING, ''No chunks generated for '' @ file_name f
                                         @ ''. Skipping.'')] st2, None)
                   else
                     (let st3 = (logging [(INFO, ''  Split into '' @ str_nat (length chunks)
                                                 @ '' chunks.'')] st2)
                                  \<lparr>total_chunks := total_chunks st2 + length chunks\<rparr>;
                          st4 = del_chunks env f 0 chunks st3
                      in (if length (all_actions st4) \<ge> 1000 then del_flush env st4 else st4,
                          None)))))"

fun del_scan :: "'v env \<Rightarrow> source_file list \<Rightarrow> 'v state \<Rightarrow> 'v state \<times> exn option" where
  "del_scan env [] st = (st, None)"
| "del_scan env (f # files) st =
     (case del_file env f st of
        (st', Some e) \<Rightarrow> (st', Some e)
      | (st', None) \<Rightarrow> del_scan env files st')"

text \<open>Step 5, \<open>if all_actions:\<close> after the loop.\<close>

definition del_final :: "'v env \<Rightarrow> 'v state \<Rightarrow> 'v state" where
  "del_final env st =
     (if all_actions st = [] then st
      else
        (let st1 = logging [(INFO, ''Indexing final batch of ''
                                   @ str_nat (length (all_actions st)) @ '' actions...'')] st;
             st2 = st1\<lparr>calls := calls st1 @ [Bulk (all_actions st)]\<rparr>
         in case bulk env (length (calls st)) (all_actions st) of
              Inr (success, failed) \<Rightarrow>
                logging ((INFO, ''  Final Batch Indexing: '' @ str_nat success
                                @ '' succeeded.'')
                         # (if failed \<noteq> [] then
                              [(ERROR, ''  Final Batch Indexing Failed Docs: ''
                                       @ str_nat (length failed))]
                            else [])) st2
            | Inl e_bulk \<Rightarrow>
                logging [(ERROR, ''Error during final bulk indexing batch: ''
                                 @ str_exn e_bulk)] st2))"

text \<open>
  The statements of \<open>if __name__ == "__main__":\<close> of delete\_index.py before the loop
  over the files: the result is the state when the scan starts, or the state at
  \<open>exit(1)\<close>.
\<close>

definition del_startup :: "host \<Rightarrow> 'v state + 'v state" where
  "del_startup h =
     (let st0 = logging [(INFO, ''--- Starting Pre-loading Script ---'')] init_state
      in if falsy (ELASTIC_CLOUD_ID h) \<or> falsy (ELASTIC_API_KEY h) then
           Inl (logging [(ERROR, ''Elastic Cloud ID or API Key not found in .env file. Exiting.'')]
                  st0)
         else if \<not> docs_is_dir h then
           Inl (logging [(ERROR, ''Documents folder '' @ [CHR 0x27] @ ''./fixed_documents''
                                 @ [CHR 0x27] @ '' not found. Exiting.'')] st0)
         else
           (let st1 = logging [(INFO, ''Connecting to Elastic Cloud...'')] st0
            in case connect h of
                 Some e \<Rightarrow>
                   Inl (logging [(ERROR, ''Failed to connect to Elastic Cloud: '' @ str_exn e)]
                          st1)
               | None \<Rightarrow>
                   (let st2 = st1\<lparr>calls := calls st1 @ [Ping]\<rparr>
                    in if \<not> ping h then
                         Inl (logging [(ERROR, ''Failed to connect to Elastic Cloud: ''
                                               @ ''Ping failed.'')] st2)
                       else
                         (let st3 = logging
                                [(INFO, ''Connected to Elastic Cloud successfully.''),
                                 (INFO, ''Loading embedding model: ''
                                        @ ''sentence-transformers/all-MiniLM-L6-v2''
                                        @ ''...'')] st2
                          in case load_model h of
                               Some e \<Rightarrow>
                                 Inl (logging [(ERROR, ''Failed to load embedding model: ''
                                                       @ str_exn e)] st3)
                             | None \<Rightarrow>
                                 Inr (logging
                                        [(INFO, ''Embedding model loaded.''),
                                         (INFO, ''Scanning documents in '' @ [CHR 0x27]
                                                @ ''./fixed_documents'' @ [CHR 0x27]
                                                @ ''...'')] st3)))))"

text \<open>The whole script: start, scan, final batch, closing log lines.\<close>

definition del_main :: "host \<Rightarrow> 'v env \<Rightarrow> source_file list \<Rightarrow> ending \<times> 'v state" where
  "del_main h env files =
     (case del_startup h of
        Inl st \<Rightarrow> (Exit 1, st)
      | Inr st \<Rightarrow>
          (case del_scan env files st of
             (st5, Some e) \<Rightarrow> (Uncaught e, st5)
           | (st5, None) \<Rightarrow>
               (let st6 = del_final env st5
                in (Finished,
                    logging
                      [(INFO, ''--- Pre-loading Script Finished ---''),
                       (INFO, ''Processed '' @ str_nat (file_count st6) @ '' files.''),
                       (INFO, ''Generated and attempted to index ''
                              @ str_nat (total_chunks st6) @ '' chunks.''),
                       (INFO, ''Total time: '' @ elapsed h @ '' seconds.'')] st6))))"

section \<open>The HTTP service (api/main.py)\<close>

text \<open>
  The store as the service sees it through the client, which is not code of the
  repository: \<open>es_get index id\<close> is \<open>es.get(index=.., id=..)\<close> and returns the
  \<open>"_source"\<close> of the document or raises (\<open>NotFoundError\<close> when no document has the
  id); \<open>es_search index body\<close> is \<open>es.search(index=.., body=..)\<close> and returns
  \<open>response["hits"]["hits"]\<close>, each hit with its \<open>"_id"\<close> and \<open>"_source"\<close>, or
  raises. \<open>unquote\<close> is \<open>urllib.parse.unquote\<close>.
\<close>

record search_body =
  size :: nat
  match_all :: bool
  source_fields :: "string list"

type_synonym 'v hit = "string \<times> (string \<times> 'v json) list"

record 'v client =
  ELASTIC_INDEX :: string
  es_get :: "string \<Rightarrow> string \<Rightarrow> exn + (string \<times> 'v json) list"
  es_search :: "string \<Rightarrow> search_body \<Rightarrow> exn + 'v hit list"
  unquote :: "string \<Rightarrow> string"

text \<open>A response: the returned value with status 200, or \<open>HTTPException\<close>.\<close>

datatype 'a response = OK 'a | HTTPException nat string

text \<open>\<open>d.get(key, default)\<close> on a dictionary.\<close>

definition dict_get :: "(string \<times> 'v json) list \<Rightarrow> string \<Rightarrow> 'v json \<Rightarrow> 'v json" where
  "dict_get d key dflt = (case map_of d key of Some v \<Rightarrow> v | None \<Rightarrow> dflt)"

definition get_file_content :: "'v client \<Rightarrow> string \<Rightarrow> (string \<times> 'v json) list response" where
  "get_file_content c file_id =
     (let decoded_file_id = unquote c file_id
      in case es_get c (ELASTIC_INDEX c) decoded_file_id of
           Inr source \<Rightarrow> OK [(''content'', dict_get source ''content'' (Str ''Content not found''))]
         | Inl e \<Rightarrow> HTTPException 500 (str_exn e))"

definition get_all_files :: "'v client \<Rightarrow> (string \<times> 'v json) list list response" where
  "get_all_files c =
     (case es_search c (ELASTIC_INDEX c)
             \<lparr>size = 1000, match_all = True, source_fields = [''file_name'', ''path'']\<rparr> of
        Inr hits \<Rightarrow>
          OK (map (\<lambda>(hit_id, source).
                     [(''id'', Str hit_id),
                      (''file_name'', dict_get source ''file_name'' (Str '''')),
                      (''path'', dict_get source ''path'' (Str ''''))]) hits)
      | Inl e \<Rightarrow> HTTPException 500 (str_exn e))"

section \<open>Vocabulary of the properties\<close>

text \<open>
  Not code of the repository: the chunks of a list that get a vector, each with its
  index in the list (counted from \<open>i\<close>) and the vector, in order. A chunk is left out
  when it is empty or all whitespace, or when the embedding call raises for it.
\<close>

definition embedded :: "'v env \<Rightarrow> nat \<Rightarrow> string list \<Rightarrow> (nat \<times> string \<times> 'v list) list" where
  "embedded env i chunks =
     List.map_filter
       (\<lambda>(j, chunk).
          if no_text chunk then None
          else (case encode env chunk of Inr vector \<Rightarrow> Some (j, chunk, vector) | Inl e \<Rightarrow> None))
       (enumerate i chunks)"

text \<open>\<open>action["_source"][key]\<close>, when both keys are there.\<close>

definition source_field :: "'v action \<Rightarrow> string \<Rightarrow> 'v json option" where
  "source_field a key = (case map_of a ''_source'' of Some (Dict d) \<Rightarrow> map_of d key | _ \<Rightarrow> None)"

text \<open>
  The operation the bulk helper performs for an action: the value of its
  \<open>"_op_type"\<close> key, \<open>index\<close> when the key is absent.
\<close>

definition op_type :: "'v action \<Rightarrow> string" where
  "op_type a = (case map_of a ''_op_type'' of Some (Str t) \<Rightarrow> t | _ \<Rightarrow> ''index'')"

text \<open>The batches handed to \<open>bulk\<close> so far, in order.\<close>

definition batches :: "'v state \<Rightarrow> 'v action list list" where
  "batches st = List.map_filter (\<lambda>c. case c of Bulk b \<Rightarrow> Some b | _ \<Rightarrow> None) (calls st)"

text \<open>
  Every action built so far, in the order of building: those of the batches handed to
  \<open>bulk\<close>, then those still in the buffer. (For index-in-elastic-cloud-old.py, whose
  buffer is emptied by every batch, no action is counted twice.)
\<close>

definition emitted :: "'v state \<Rightarrow> 'v action list" where
  "emitted st = concat (batches st) @ all_actions st"

text \<open>
  The actions index-in-elastic-cloud-old.py builds for one file: what the loop body
  emits when it starts from the empty state.
\<close>

definition produced :: "'v env \<Rightarrow> source_file \<Rightarrow> 'v action list" where
  "produced env f = emitted (idx_file env f init_state)"

section \<open>Concrete inputs\<close>

text \<open>A PDF of three pages whose second page cannot be read.\<close>

definition three_pages :: pdf_reader where
  "three_pages = \<lparr>is_encrypted = False, decrypt = None,
                   pages = [Inr ''a'', Inl (Exception ''boom''), Inr ''b'']\<rparr>"

text \<open>
  A client for the concrete inputs: a store that holds the documents \<open>docs\<close> (identifier
  and source) under one index, answers a search with its first \<open>size\<close> documents, each
  source cut down to the fields asked for, and raises \<open>NotFoundError\<close> for an identifier
  it does not hold. The identifiers used below contain no escape, so \<open>unquote\<close> leaves
  them as they are.
\<close>

definition store_client ::
  "string \<Rightarrow> (string \<times> (string \<times> 'v json) list) list \<Rightarrow> 'v client" where
  "store_client index_name docs =
     \<lparr>ELASTIC_INDEX = index_name,
      es_get = (\<lambda>idx doc.
        if idx \<noteq> index_name then Inl (NotFoundError ''index_not_found_exception'')
        else (case map_of docs doc of
                None \<Rightarrow> Inl (NotFoundError ''NotFoundError(404)'')
              | Some source \<Rightarrow> Inr source)),
      es_search = (\<lambda>idx body.
        if idx \<noteq> index_name then Inl (NotFoundError ''index_not_found_exception'')
        else Inr (map (\<lambda>(doc, source). (doc, filter (\<lambda>(k, v). k \<in> set (source_fields body)) source))
                    (take (size body) docs))),
      unquote = (\<lambda>s. s)\<rparr>"

definition two_docs :: "(string \<times> (string \<times> int json) list) list" where
  "two_docs =
     [(''chunk-a.txt-1.5-0'',
       [(''file_name'', Str ''a.txt''), (''path'', Str ''.''), (''content'', Str ''hello'')]),
      (''auto1'', [(''file_name'', Str ''b.md''), (''chunk_text'', Str ''x'')])]"

text \<open>
  A run environment for the concrete inputs: the model returns three numbers for every
  chunk but \<open>bad\<close>, for which it raises; the splitter cuts the one text below in three
  and leaves any other text whole; every bulk request succeeds.
\<close>

definition small_env :: "int env" where
  "small_env =
     \<lparr>ES_INDEX_NAME = ''rag_documents'',
      TARGET_USER_ID = ''preloaded_general_docs'',
      encode = (\<lambda>chunk. if chunk = ''bad'' then Inl (Exception ''model error'')
                          else Inr [1, 2, 3]),
      split_text = (\<lambda>t. if t = ''one bad two'' then Inr [''one'', ''bad'', ''two'']
                         else Inr [t]),
      bulk = (\<lambda>n actions. Inr (length actions, [])),
      b64encode = (\<lambda>s. s),
      now = ''2025-01-01T00:00:00Z''\<rparr>"

definition a_txt :: source_file where
  "a_txt =
     \<lparr>is_file = True, file_name = ''a.txt'', relative_path = ''.'',
      relative_file = ''a.txt'', suffix = ''.txt'', path_str = ''fixed_documents/a.txt'',
      st_mtime = ''1700000000.5'',
      read_bytes = Inr ''one bad two'', read_text_ignore = Inr ''one bad two'',
      read_text_strict = Inr ''one bad two'',
      docx_paragraphs = Inl (Exception ''not a docx''),
      pdf = Inl (Exception ''not a pdf'')\<rparr>"

text \<open>A host on which both scripts start: credentials, folder, store, model, index.\<close>

definition ok_host :: host where
  "ok_host =
     \<lparr>ELASTIC_CLOUD_ID = Some ''cloud-id'', ELASTIC_API_KEY = Some ''api-key'',
      docs_is_dir = True, connect = None, ping = True, load_model = None,
      indices_exists = Inr True, indices_create = None, elapsed = ''0.01''\<rparr>"

text \<open>
  A second run of the same folder: another clock reading, other vectors, and the same
  chunk failing.
\<close>

definition later_env :: "int env" where
  "later_env =
     \<lparr>ES_INDEX_NAME = ''rag_documents'',
      TARGET_USER_ID = ''preloaded_general_docs'',
      encode = (\<lambda>chunk. if chunk = ''bad'' then Inl (Exception ''out of memory'')
                          else Inr [4, 5, 6]),
      split_text = (\<lambda>t. if t = ''one bad two'' then Inr [''one'', ''bad'', ''two'']
                         else Inr [t]),
      bulk = (\<lambda>n actions. Inl (Exception ''connection timed out'')),
      b64encode = (\<lambda>s. s),
      now = ''2025-06-30T12:00:00Z''\<rparr>"

text \<open>An environment whose model returns 384 numbers for every chunk.\<close>

definition dim_env :: "int env" where
  "dim_env = small_env\<lparr>encode := (\<lambda>chunk. Inr (replicate 384 0))\<rparr>"

text \<open>A text file that holds two spaces and nothing else.\<close>

definition blank_txt :: source_file where
  "blank_txt =
     \<lparr>is_file = True, file_name = ''blank.txt'', relative_path = ''.'',
      relative_file = ''blank.txt'', suffix = ''.txt'',
      path_str = ''fixed_documents/blank.txt'', st_mtime = ''1700000001.0'',
      read_bytes = Inr ''  '', read_text_ignore = Inr ''  '', read_text_strict = Inr ''  '',
      docx_paragraphs = Inl (Exception ''not a docx''),
      pdf = Inl (Exception ''not a pdf'')\<rparr>"

text \<open>
  A run in which one bulk request fails: the splitter cuts the text \<open>big\<close> into 1000
  chunks \<open>x\<close>, and the store cannot be reached for the request of exactly 1000
  actions; any other request succeeds.
\<close>

definition big_env :: "int env" where
  "big_env =
     small_env
       \<lparr>split_text := (\<lambda>t. if t = ''big'' then Inr (replicate 1000 ''x'') else Inr [t]),
        bulk := (\<lambda>n actions. if length actions = 1000
                               then Inl (Exception ''connection timed out'')
                               else Inr (length actions, []))\<rparr>"

definition big_txt :: source_file where
  "big_txt =
     \<lparr>is_file = True, file_name = ''big.txt'', relative_path = ''.'',
      relative_file = ''big.txt'', suffix = ''.txt'', path_str = ''fixed_documents/big.txt'',
      st_mtime = ''1700000002.0'',
      read_bytes = Inr ''big'', read_text_ignore = Inr ''big'', read_text_strict = Inr ''big'',
      docx_paragraphs = Inl (Exception ''not a docx''),
      pdf = Inl (Exception ''not a pdf'')\<rparr>"

definition tail_txt :: source_file where
  "tail_txt =
     \<lparr>is_file = True, file_name = ''tail.txt'', relative_path = ''.'',
      relative_file = ''tail.txt'', suffix = ''.txt'', path_str = ''fixed_documents/tail.txt'',
      st_mtime = ''1700000003.0'',
      read_bytes = Inr ''y'', read_text_ignore = Inr ''y'', read_text_strict = Inr ''y'',
      docx_paragraphs = Inl (Exception ''not a docx''),
      pdf = Inl (Exception ''not a pdf'')\<rparr>"

section \<open>Helper facts\<close>

lemma all_actions_logging [simp]: "all_actions (logging es st) = all_actions st"
  and calls_logging [simp]: "calls (logging es st) = calls st"
  and log_logging [simp]: "log (logging es st) = log st @ es"
  by (simp_all add: logging_def)

lemma extract_pages_readable:
  "extract_pages (map Inr texts @ rest) acc =
     extract_pages rest (acc @ concat (map (\<lambda>t. t @ ''\<newline>'') (filter (\<lambda>t. t \<noteq> []) texts)))"
  by (induction texts arbitrary: acc) simp_all

section \<open>PDF extraction stops at the first page that fails\<close>

text \<open>
  C6, as amended. In \<open>extract_text_from_pdf\<close> and in \<open>parse_pdf\<close> the page loop
  has no handler of its own. When a page raises, the handler of the function logs one
  error and the function returns the text of the pages before that page (each non-empty
  page text followed by a newline); the pages after it are not read, whatever they hold.
\<close>

theorem pdf_text_kept_up_to_first_failing_page:
  assumes "pages r = map Inr before @ Inl e # after"
    and "is_encrypted r \<longrightarrow> decrypt r = None"
  shows "extract_text_from_pdf (Inr r) path fname =
           (concat (map (\<lambda>t. t @ ''\<newline>'') (filter (\<lambda>t. t \<noteq> []) before)),
            [(ERROR, ''Error extracting text from PDF '' @ fname @ '': '' @ str_exn e)])
       \<and> parse_pdf (Inr r) path fname =
           (concat (map (\<lambda>t. t @ ''\<newline>'') (filter (\<lambda>t. t \<noteq> []) before)),
            [(ERROR, ''Error parsing PDF '' @ fname @ '': '' @ str_exn e)])"
proof -
  have pg: "extract_pages (pages r) '''' =
              (concat (map (\<lambda>t. t @ ''\<newline>'') (filter (\<lambda>t. t \<noteq> []) before)), Some e)"
    using extract_pages_readable [of before "Inl e # after" "''''"] assms(1) by simp
  have enc: "(if is_encrypted r then decrypt r else None) = None"
    using assms(2) by simp
  show ?thesis
    by (simp add: extract_text_from_pdf_def parse_pdf_def enc pg)
qed

theorem pdf_text_kept_up_to_first_failing_page_witness:
  "extract_text_from_pdf (Inr three_pages) ''docs/x.pdf'' ''x.pdf'' =
     (''a\<newline>'', [(ERROR, ''Error extracting text from PDF x.pdf: boom'')])
   \<and> parse_pdf (Inr three_pages) ''docs/x.pdf'' ''x.pdf'' =
     (''a\<newline>'', [(ERROR, ''Error parsing PDF x.pdf: boom'')])"
  using pdf_text_kept_up_to_first_failing_page
          [of three_pages "[''a'']" "Exception ''boom''" "[Inr ''b'']" "''docs/x.pdf''" "''x.pdf''"]
  by (simp add: three_pages_def)

text \<open>
  C6 as stated fails: with pages \<open>a\<close>, a failing page, \<open>b\<close>, both functions return
  \<open>a\<close> and a newline, and the text of the readable third page is not in the result.
\<close>

theorem pdf_page_after_failure_lost:
  "fst (extract_text_from_pdf (Inr three_pages) ''docs/x.pdf'' ''x.pdf'') = ''a\<newline>''
   \<and> fst (extract_text_from_pdf (Inr three_pages) ''docs/x.pdf'' ''x.pdf'') \<noteq> ''a\<newline>b\<newline>''
   \<and> fst (parse_pdf (Inr three_pages) ''docs/x.pdf'' ''x.pdf'') = ''a\<newline>''
   \<and> fst (parse_pdf (Inr three_pages) ''docs/x.pdf'' ''x.pdf'') \<noteq> ''a\<newline>b\<newline>''"
  by (simp add: extract_text_from_pdf_def parse_pdf_def three_pages_def)

section \<open>The HTTP service\<close>

text \<open>
  C8. \<open>GET /api/files\<close> asks the store for 1000 documents. When the store answers a
  search with no more hits than the size asked for, the endpoint returns one entry per
  hit, so at most 1000, and each entry has exactly the keys \<open>id\<close>, \<open>file_name\<close> and
  \<open>path\<close>, with the hit's identifier under \<open>id\<close>. When the store answers with no
  hit, the endpoint returns the empty list with status 200.
\<close>

theorem get_all_files_at_most_1000:
  assumes "\<And>body hits. es_search c (ELASTIC_INDEX c) body = Inr hits \<Longrightarrow> length hits \<le> size body"
    and "es_search c (ELASTIC_INDEX c)
           \<lparr>size = 1000, match_all = True, source_fields = [''file_name'', ''path'']\<rparr> = Inr hits"
  shows "\<exists>rs. get_all_files c = OK rs \<and> length rs \<le> 1000 \<and> length rs = length hits
           \<and> (\<forall>i<length hits. map fst (rs ! i) = [''id'', ''file_name'', ''path'']
                               \<and> map_of (rs ! i) ''id'' = Some (Str (fst (hits ! i))))
           \<and> (hits = [] \<longrightarrow> rs = [])"
proof -
  have "length hits \<le> 1000"
    using assms(1) [OF assms(2)] by simp
  then show ?thesis
    by (simp add: get_all_files_def assms(2) split_beta)
qed

theorem get_all_files_at_most_1000_witness:
  "get_all_files (store_client ''rag_documents'' two_docs) =
     OK [[(''id'', Str ''chunk-a.txt-1.5-0''), (''file_name'', Str ''a.txt''), (''path'', Str ''.'')],
         [(''id'', Str ''auto1''), (''file_name'', Str ''b.md''), (''path'', Str '''')]]
   \<and> get_all_files (store_client ''rag_documents'' ([] :: (string \<times> (string \<times> int json) list) list))
       = OK []"
proof -
  let ?c = "store_client ''rag_documents'' two_docs"
  let ?e = "store_client ''rag_documents'' ([] :: (string \<times> (string \<times> int json) list) list)"
  let ?body = "\<lparr>size = 1000, match_all = True, source_fields = [''file_name'', ''path'']\<rparr>"
  have c1: "\<And>body hits. es_search ?c (ELASTIC_INDEX ?c) body = Inr hits \<Longrightarrow> length hits \<le> size body"
    by (auto simp: store_client_def)
  have c2: "es_search ?c (ELASTIC_INDEX ?c) ?body =
              Inr [(''chunk-a.txt-1.5-0'', [(''file_name'', Str ''a.txt''), (''path'', Str ''.'')]),
                   (''auto1'', [(''file_name'', Str ''b.md'')])]"
    by (simp add: store_client_def two_docs_def)
  have e1: "\<And>body hits. es_search ?e (ELASTIC_INDEX ?e) body = Inr hits \<Longrightarrow> length hits \<le> size body"
    by (auto simp: store_client_def)
  have e2: "es_search ?e (ELASTIC_INDEX ?e) ?body = Inr []"
    by (simp add: store_client_def)
  from get_all_files_at_most_1000 [of ?e, OF e1 e2]
  have "get_all_files ?e = OK []" by auto
  moreover from get_all_files_at_most_1000 [of ?c, OF c1 c2]
  have "get_all_files ?c = OK [[(''id'', Str ''chunk-a.txt-1.5-0''), (''file_name'', Str ''a.txt''), (''path'', Str ''.'')],
         [(''id'', Str ''auto1''), (''file_name'', Str ''b.md''), (''path'', Str '''')]]"
    by (simp add: get_all_files_def c2 dict_get_def)
  ultimately show ?thesis by simp
qed

text \<open>
  C10. \<open>GET /api/files/{id}\<close>: whatever exception the store client raises for the
  decoded identifier, a missing document included, the endpoint answers with status
  500 and the text of the exception; no request is answered with status 404.
\<close>

theorem get_file_content_unmatched_500:
  assumes "es_get c (ELASTIC_INDEX c) (unquote c file_id) = Inl e"
  shows "get_file_content c file_id = HTTPException 500 (str_exn e)
       \<and> (case get_file_content c' file_id' of
             OK content \<Rightarrow> True
           | HTTPException status detail \<Rightarrow> status = 500)"
  using assms by (simp add: get_file_content_def Let_def split: sum.splits)

theorem get_file_content_unmatched_500_witness:
  "map_of two_docs ''no-such-id'' = None
   \<and> get_file_content (store_client ''rag_documents'' two_docs) ''no-such-id''
       = HTTPException 500 ''NotFoundError(404)''"
proof -
  let ?c = "store_client ''rag_documents'' two_docs"
  have h: "es_get ?c (ELASTIC_INDEX ?c) (unquote ?c ''no-such-id'')
             = Inl (NotFoundError ''NotFoundError(404)'')"
    by (simp add: store_client_def two_docs_def)
  from get_file_content_unmatched_500 [OF h, THEN conjunct1] show ?thesis
    by (simp add: two_docs_def)
qed
section \<open>The chunk loops\<close>

lemma embedded_Nil [simp]: "embedded env i [] = []"
  by (simp add: embedded_def)

lemma embedded_Cons:
  "embedded env i (c # cs) =
     (if no_text c then embedded env (Suc i) cs
      else (case encode env c of
              Inr v \<Rightarrow> (i, c, v) # embedded env (Suc i) cs
            | Inl e \<Rightarrow> embedded env (Suc i) cs))"
  by (simp add: embedded_def split: sum.splits)

lemma set_map_filter_eq: "set (List.map_filter g xs) = {y. \<exists>x \<in> set xs. g x = Some y}"
  by (induction xs) (auto split: option.splits)

lemma in_embedded:
  "(j, c, v) \<in> set (embedded env i chunks) \<longleftrightarrow>
     i \<le> j \<and> j < i + length chunks \<and> c = chunks ! (j - i) \<and> \<not> no_text c \<and> encode env c = Inr v"
proof
  assume "(j, c, v) \<in> set (embedded env i chunks)"
  then show "i \<le> j \<and> j < i + length chunks \<and> c = chunks ! (j - i) \<and> \<not> no_text c
               \<and> encode env c = Inr v"
    by (auto simp: embedded_def set_map_filter_eq in_set_enumerate_eq
             split: if_splits sum.splits)
next
  assume r: "i \<le> j \<and> j < i + length chunks \<and> c = chunks ! (j - i) \<and> \<not> no_text c
               \<and> encode env c = Inr v"
  then have "(j, c) \<in> set (enumerate i chunks)"
    by (simp add: in_set_enumerate_eq add.commute)
  with r show "(j, c, v) \<in> set (embedded env i chunks)"
    unfolding embedded_def set_map_filter_eq by (auto intro!: bexI [where x = "(j, c)"])
qed

lemma idx_chunks_actions:
  "all_actions (idx_chunks env f full ct i chunks st) =
     all_actions st @ map (\<lambda>(j, c, v). chunk_action env f full ct j c v) (embedded env i chunks)"
  by (induction chunks arbitrary: i st)
     (simp_all add: embedded_Cons idx_chunk_def split: sum.splits)

lemma idx_chunks_calls [simp]: "calls (idx_chunks env f full ct i chunks st) = calls st"
  by (induction chunks arbitrary: i st) (simp_all add: idx_chunk_def split: sum.splits)

lemma del_chunks_actions:
  "all_actions (del_chunks env f i chunks st) =
     all_actions st @ map (\<lambda>(j, c, v). del_doc env (file_name f) c v) (embedded env i chunks)"
  by (induction chunks arbitrary: i st)
     (simp_all add: embedded_Cons del_chunk_def split: sum.splits)

lemma del_chunks_calls [simp]: "calls (del_chunks env f i chunks st) = calls st"
  by (induction chunks arbitrary: i st) (simp_all add: del_chunk_def split: sum.splits)

lemma idx_chunk_log_mono: "set (log st) \<subseteq> set (log (idx_chunk env f full ct i c st))"
  by (auto simp: idx_chunk_def split: sum.splits)

lemma idx_chunks_log_mono: "set (log st) \<subseteq> set (log (idx_chunks env f full ct i chunks st))"
proof (induction chunks arbitrary: i st)
  case Nil
  then show ?case by simp
next
  case (Cons c cs)
  show ?case
    using idx_chunk_log_mono [where st = st and env = env and f = f and full = full
                                and ct = ct and i = i and c = c]
          Cons.IH [where i = "Suc i" and st = "idx_chunk env f full ct i c st"]
    by auto
qed

lemma idx_chunks_log_error:
  "k < length chunks \<Longrightarrow> \<not> no_text (chunks ! k) \<Longrightarrow> encode env (chunks ! k) = Inl e \<Longrightarrow>
     embed_error (i + k) (file_name f) e \<in> set (log (idx_chunks env f full ct i chunks st))"
proof (induction chunks arbitrary: i k st)
  case Nil
  then show ?case by simp
next
  case (Cons c cs)
  show ?case
  proof (cases k)
    case 0
    with Cons.prems have "embed_error i (file_name f) e \<in> set (log (idx_chunk env f full ct i c st))"
      by (simp add: idx_chunk_def)
    then show ?thesis
      using 0 idx_chunks_log_mono [where st = "idx_chunk env f full ct i c st" and env = env
                                     and f = f and full = full and ct = ct and i = "Suc i"
                                     and chunks = cs]
      by auto
  next
    case (Suc k')
    with Cons.prems
      Cons.IH [where k = k' and i = "Suc i" and st = "idx_chunk env f full ct i c st"]
    show ?thesis by simp
  qed
qed

lemma del_chunk_log_mono: "set (log st) \<subseteq> set (log (del_chunk env f i c st))"
  by (auto simp: del_chunk_def split: sum.splits)

lemma del_chunks_log_mono: "set (log st) \<subseteq> set (log (del_chunks env f i chunks st))"
proof (induction chunks arbitrary: i st)
  case Nil
  then show ?case by simp
next
  case (Cons c cs)
  show ?case
    using del_chunk_log_mono [where st = st and env = env and f = f and i = i and c = c]
          Cons.IH [where i = "Suc i" and st = "del_chunk env f i c st"]
    by auto
qed

lemma del_chunks_log_error:
  "k < length chunks \<Longrightarrow> \<not> no_text (chunks ! k) \<Longrightarrow> encode env (chunks ! k) = Inl e \<Longrightarrow>
     del_embed_error (i + k) (file_name f) e \<in> set (log (del_chunks env f i chunks st))"
proof (induction chunks arbitrary: i k st)
  case Nil
  then show ?case by simp
next
  case (Cons c cs)
  show ?case
  proof (cases k)
    case 0
    with Cons.prems have "del_embed_error i (file_name f) e \<in> set (log (del_chunk env f i c st))"
      by (simp add: del_chunk_def)
    then show ?thesis
      using 0 del_chunks_log_mono [where st = "del_chunk env f i c st" and env = env
                                     and f = f and i = "Suc i" and chunks = cs]
      by auto
  next
    case (Suc k')
    with Cons.prems Cons.IH [where k = k' and i = "Suc i" and st = "del_chunk env f i c st"]
    show ?thesis by simp
  qed
qed

section \<open>One failing embedding drops one chunk\<close>

text \<open>
  C3. In both scripts the chunk loop adds to the buffer exactly the actions of the chunks
  that get a vector, in the order of the chunks. When the embedding call raises for
  chunk \<open>k\<close>, that chunk has no action, the error is logged with the chunk's number
  \<open>k + 1\<close>, and every other chunk with text whose embedding call returns has its
  action in the buffer: the loop runs to the end of the list.
\<close>

theorem embedding_failure_drops_only_that_chunk:
  assumes "k < length chunks" and "\<not> no_text (chunks ! k)" and "encode env (chunks ! k) = Inl e"
  shows "all_actions (idx_chunks env f full ct 0 chunks st) =
           all_actions st
           @ map (\<lambda>(j, c, v). chunk_action env f full ct j c v) (embedded env 0 chunks)
       \<and> all_actions (del_chunks env f 0 chunks st') =
           all_actions st'
           @ map (\<lambda>(j, c, v). del_doc env (file_name f) c v) (embedded env 0 chunks)
       \<and> k \<notin> fst ` set (embedded env 0 chunks)
       \<and> (\<forall>j v. j < length chunks \<and> j \<noteq> k \<and> \<not> no_text (chunks ! j)
                 \<and> encode env (chunks ! j) = Inr v
              \<longrightarrow> (j, chunks ! j, v) \<in> set (embedded env 0 chunks))
       \<and> embed_error k (file_name f) e \<in> set (log (idx_chunks env f full ct 0 chunks st))
       \<and> del_embed_error k (file_name f) e \<in> set (log (del_chunks env f 0 chunks st'))"
proof -
  have "k \<notin> fst ` set (embedded env 0 chunks)"
    using assms(3) by (auto simp: in_embedded)
  moreover have "\<forall>j v. j < length chunks \<and> j \<noteq> k \<and> \<not> no_text (chunks ! j)
                   \<and> encode env (chunks ! j) = Inr v
                \<longrightarrow> (j, chunks ! j, v) \<in> set (embedded env 0 chunks)"
    by (simp add: in_embedded)
  moreover have "embed_error k (file_name f) e \<in> set (log (idx_chunks env f full ct 0 chunks st))"
    using idx_chunks_log_error [OF assms, where i = 0 and f = f and full = full and ct = ct
                                       and st = st] by simp
  moreover have "del_embed_error k (file_name f) e \<in> set (log (del_chunks env f 0 chunks st'))"
    using del_chunks_log_error [OF assms, where i = 0 and f = f and st = st'] by simp
  ultimately show ?thesis
    by (simp add: idx_chunks_actions del_chunks_actions)
qed
lemma no_text_one [simp]: "\<not> no_text ''one''" "\<not> no_text ''bad''" "\<not> no_text ''two''"
  by (simp_all add: no_text_def isspace_def space_char_def)

theorem embedding_failure_drops_only_that_chunk_witness:
  "all_actions (idx_chunks small_env a_txt ''one bad two'' ''text'' 0 [''one'', ''bad'', ''two'']
                  init_state) =
     [chunk_action small_env a_txt ''one bad two'' ''text'' 0 ''one'' [1, 2, 3],
      chunk_action small_env a_txt ''one bad two'' ''text'' 2 ''two'' [1, 2, 3]]
   \<and> all_actions (del_chunks small_env a_txt 0 [''one'', ''bad'', ''two''] init_state) =
     [del_doc small_env ''a.txt'' ''one'' [1, 2, 3], del_doc small_env ''a.txt'' ''two'' [1, 2, 3]]
   \<and> embed_error 1 ''a.txt'' (Exception ''model error'')
       \<in> set (log (idx_chunks small_env a_txt ''one bad two'' ''text'' 0
                      [''one'', ''bad'', ''two''] init_state))
   \<and> del_embed_error 1 ''a.txt'' (Exception ''model error'')
       \<in> set (log (del_chunks small_env a_txt 0 [''one'', ''bad'', ''two''] init_state))"
proof -
  have k: "(1::nat) < length [''one'', ''bad'', ''two'']" by simp
  have t: "\<not> no_text ([''one'', ''bad'', ''two''] ! 1)" by simp
  have e: "encode small_env ([''one'', ''bad'', ''two''] ! 1) = Inl (Exception ''model error'')"
    by (simp add: small_env_def)
  have enc: "encode small_env ''one'' = Inr [1, 2, 3]" "encode small_env ''two'' = Inr [1, 2, 3]"
            "encode small_env ''bad'' = Inl (Exception ''model error'')"
    by (simp_all add: small_env_def)
  have fn: "file_name a_txt = ''a.txt''" by (simp add: a_txt_def)
  from embedding_failure_drops_only_that_chunk [OF k t e, where f = a_txt
         and full = "''one bad two''" and ct = "''text''" and st = init_state and st' = init_state]
  moreover have "embedded small_env 0 [''one'', ''bad'', ''two''] =
                   [(0, ''one'', [1, 2, 3]), (2, ''two'', [1, 2, 3])]"
    by (simp add: embedded_Cons enc)
  moreover have "all_actions (init_state :: int state) = []"
    by (simp add: init_state_def)
  ultimately show ?thesis
    by (simp add: fn del: idx_chunks.simps del_chunks.simps)
qed
section \<open>What a run submits\<close>

lemma batches_logging [simp]: "batches (logging es st) = batches st"
  by (simp add: batches_def)

lemma emitted_logging [simp]: "emitted (logging es st) = emitted st"
  by (simp add: emitted_def)

lemma batches_sent: "batches (st\<lparr>calls := calls st @ [Bulk b]\<rparr>) = batches st @ [b]"
  by (simp add: batches_def List.map_filter_def)

lemma emitted_init [simp]: "emitted init_state = []"
  by (simp add: emitted_def batches_def init_state_def)

lemma idx_chunks_emitted:
  "emitted (idx_chunks env f full ct i chunks st) =
     emitted st @ map (\<lambda>(j, c, v). chunk_action env f full ct j c v) (embedded env i chunks)"
  by (simp add: emitted_def batches_def idx_chunks_actions)

lemma idx_flush_emitted: "emitted (idx_flush env st) = emitted st"
  by (simp add: idx_flush_def Let_def emitted_def batches_def logging_def List.map_filter_def
           split: sum.splits prod.splits)

lemma idx_split_emitted:
  "emitted (idx_split env f full ct tfc st) =
     emitted st @ (case split_text env tfc of
                     Inl e \<Rightarrow> []
                   | Inr chunks \<Rightarrow>
                       map (\<lambda>(j, c, v). chunk_action env f full ct j c v) (embedded env 0 chunks))"
proof (cases "split_text env tfc")
  case (Inl e)
  then show ?thesis by (simp add: idx_split_def)
next
  case (Inr chunks)
  let ?st2 = "idx_chunks env f full ct 0 chunks
                ((logging [(INFO, ''  Split into '' @ str_nat (length chunks) @ '' chunks.'')] st)
                   \<lparr>chunks_embedded_count := 0\<rparr>)"
  have e2: "emitted ?st2 =
              emitted st @ map (\<lambda>(j, c, v). chunk_action env f full ct j c v) (embedded env 0 chunks)"
    by (simp add: idx_chunks_emitted) (simp add: emitted_def batches_def)
  have e3: "emitted (?st2\<lparr>total_chunks := total_chunks ?st2 + chunks_embedded_count ?st2\<rparr>) = emitted ?st2"
    by (simp add: emitted_def batches_def)
  show ?thesis
    using Inr e2 e3 by (simp add: idx_split_def Let_def idx_flush_emitted)
qed

lemma idx_content_emitted:
  "emitted (idx_content env f raw ct st) =
     emitted st @
       (if ct \<noteq> ''pdf_base64'' \<and> ct \<noteq> ''text'' then []
        else (case idx_prepare env f raw ct of
                (full, tfc, pdf_log) \<Rightarrow>
                  if no_text tfc then [file_action env f full ct]
                  else (case split_text env tfc of
                          Inl e \<Rightarrow> []
                        | Inr chunks \<Rightarrow>
                            map (\<lambda>(j, c, v). chunk_action env f full ct j c v)
                              (embedded env 0 chunks))))"
proof (cases "ct \<noteq> ''pdf_base64'' \<and> ct \<noteq> ''text''")
  case True
  then show ?thesis by (simp add: idx_content_def)
next
  case False
  obtain full tfc pdf_log where p: "idx_prepare env f raw ct = (full, tfc, pdf_log)"
    by (cases "idx_prepare env f raw ct") auto
  have w: "emitted (st'\<lparr>all_actions := all_actions st' @ [a]\<rparr>) = emitted st' @ [a]" for st' a
    by (simp add: emitted_def batches_def)
  show ?thesis
  proof (cases "no_text tfc")
    case True
    with False p show ?thesis
      by (simp add: idx_content_def Let_def del: all_actions_logging)
         (simp add: emitted_def batches_def logging_def)
  next
    case nt: False
    with False p show ?thesis
      by (auto simp: idx_content_def Let_def idx_split_emitted)
  qed
qed

lemma idx_file_emitted_explicit:
  "emitted (idx_file env f st) =
     emitted st @
       (if \<not> is_file f then []
        else (case fst (get_file_content_and_type f) of
                (Some raw, Some ct) \<Rightarrow>
                  if raw = [] \<or> ct = [] then []
                  else if ct \<noteq> ''pdf_base64'' \<and> ct \<noteq> ''text'' then []
                  else (case idx_prepare env f raw ct of
                          (full, tfc, pdf_log) \<Rightarrow>
                            if no_text tfc then [file_action env f full ct]
                            else (case split_text env tfc of
                                    Inl e \<Rightarrow> []
                                  | Inr chunks \<Rightarrow>
                                      map (\<lambda>(j, c, v). chunk_action env f full ct j c v)
                                        (embedded env 0 chunks)))
              | _ \<Rightarrow> []))"
proof (cases "is_file f")
  case False
  then show ?thesis by (simp add: idx_file_def)
next
  case True
  obtain r c read_log where g: "get_file_content_and_type f = ((r, c), read_log)"
    by (cases "get_file_content_and_type f") auto
  show ?thesis
  proof (cases "\<exists>raw ct. r = Some raw \<and> c = Some ct \<and> raw \<noteq> [] \<and> ct \<noteq> []")
    case True
    then obtain raw ct where "r = Some raw" "c = Some ct" "raw \<noteq> []" "ct \<noteq> []" by blast
    with \<open>is_file f\<close> g show ?thesis
      by (simp add: idx_file_def Let_def idx_content_emitted)
         (simp add: emitted_def batches_def logging_def)
  next
    case False
    with \<open>is_file f\<close> g show ?thesis
      by (cases r; cases c) (auto simp: idx_file_def Let_def emitted_def batches_def logging_def)
  qed
qed
lemma idx_file_emitted: "emitted (idx_file env f st) = emitted st @ produced env f"
  unfolding produced_def
  by (simp add: idx_file_emitted_explicit [where st = st]
                idx_file_emitted_explicit [where st = init_state])

lemma idx_scan_emitted:
  "emitted (idx_scan env files st) = emitted st @ concat (map (produced env) files)"
  by (induction files arbitrary: st) (simp_all add: idx_file_emitted)

lemma idx_final_submitted: "concat (batches (idx_final env st)) = emitted st"
  by (simp add: idx_final_def Let_def emitted_def batches_def logging_def List.map_filter_def
           split: sum.splits prod.splits)

lemma idx_ingest_submitted:
  "concat (batches (idx_ingest env files st)) = emitted st @ concat (map (produced env) files)"
  by (simp add: idx_ingest_def idx_final_submitted idx_scan_emitted)

lemma idx_startup_emitted:
  "idx_startup h env = Inr st \<Longrightarrow> emitted st = []"
  by (auto simp: idx_startup_def Let_def emitted_def batches_def logging_def init_state_def
                 List.map_filter_def
           split: if_splits option.splits sum.splits bool.splits)

lemma idx_startup_exit:
  "idx_startup h env = Inl st \<Longrightarrow> batches st = []"
  by (auto simp: idx_startup_def Let_def batches_def logging_def init_state_def
                 List.map_filter_def
           split: if_splits option.splits sum.splits bool.splits)

lemma idx_main_submitted:
  "concat (batches (snd (idx_main h env files))) =
     (case idx_startup h env of
        Inl st \<Rightarrow> []
      | Inr st \<Rightarrow> concat (map (produced env) files))"
  by (simp add: idx_main_def Let_def idx_ingest_submitted idx_startup_emitted idx_startup_exit
           split: sum.splits)

lemma produced_all:
  assumes "\<And>full ct. P (file_action env f full ct)"
    and "\<And>full ct j c v. \<not> no_text c \<Longrightarrow> encode env c = Inr v
           \<Longrightarrow> P (chunk_action env f full ct j c v)"
  shows "\<forall>a \<in> set (produced env f). P a"
  unfolding produced_def idx_file_emitted_explicit [where st = init_state]
  by (auto simp: in_embedded assms split: if_splits option.splits prod.splits sum.splits)

lemma idx_prepare_text:
  "fst (snd (idx_prepare env f raw ct)) = fst (snd (idx_prepare env' f raw ct))"
  by (simp add: idx_prepare_def split_beta)
lemma set_emitted:
  "set (emitted st) = (\<Union>b \<in> set (batches st). set b) \<union> set (all_actions st)"
  by (simp add: emitted_def)

lemma in_batches: "b \<in> set (batches st) \<longleftrightarrow> Bulk b \<in> set (calls st)"
proof -
  have "b \<in> set (List.map_filter (\<lambda>c. case c of Bulk b \<Rightarrow> Some b | _ \<Rightarrow> None) cs)
          \<longleftrightarrow> Bulk b \<in> set cs" for cs :: "'a es_call list"
    by (induction cs) (auto split: es_call.splits)
  then show ?thesis by (simp add: batches_def)
qed

lemma del_chunks_emitted:
  "emitted (del_chunks env f i chunks st) =
     emitted st @ map (\<lambda>(j, c, v). del_doc env (file_name f) c v) (embedded env i chunks)"
  by (simp add: emitted_def batches_def del_chunks_actions)

lemma del_flush_calls:
  "calls (del_flush env st) = calls st @ [Bulk (all_actions st)]"
  by (simp add: del_flush_def Let_def logging_def split: sum.splits prod.splits)

lemma del_flush_set: "set (emitted (del_flush env st)) = set (emitted st)"
  by (auto simp: del_flush_def Let_def emitted_def batches_def logging_def List.map_filter_def
           split: sum.splits prod.splits)

lemma del_final_calls:
  "calls (del_final env st) = calls st @ (if all_actions st = [] then [] else [Bulk (all_actions st)])"
  by (simp add: del_final_def Let_def logging_def split: sum.splits prod.splits)

lemma del_final_set: "set (emitted (del_final env st)) = set (emitted st)"
  by (auto simp: del_final_def Let_def emitted_def batches_def logging_def List.map_filter_def
           split: sum.splits prod.splits)

lemma del_file_calls:
  "\<exists>bs. calls (fst (del_file env f st)) = calls st @ map Bulk bs"
proof -
  have n: "\<exists>bs. calls st = calls st @ map Bulk bs"
    by (rule exI [where x = "[]"]) simp
  have o: "\<exists>bs. calls st @ [Bulk b] = calls st @ map Bulk bs" for b
    by (rule exI [where x = "[b]"]) simp
  show ?thesis
    using n o
    by (simp add: del_file_def Let_def del_flush_calls split: prod.splits sum.splits)
qed

lemma emitted_counters [simp]:
  "emitted (st\<lparr>file_count := n\<rparr>) = emitted st"
  "emitted (st\<lparr>total_chunks := n\<rparr>) = emitted st"
  "emitted (st\<lparr>chunks_embedded_count := n\<rparr>) = emitted st"
  by (simp_all add: emitted_def batches_def)

lemma del_file_all:
  assumes "\<forall>a \<in> set (emitted st). P a"
    and "\<And>c v. \<not> no_text c \<Longrightarrow> encode env c = Inr v \<Longrightarrow> P (del_doc env (file_name f) c v)"
  shows "\<forall>a \<in> set (emitted (fst (del_file env f st))). P a"
  using assms
  by (auto simp: del_file_def Let_def del_flush_set del_chunks_emitted in_embedded
           split: prod.splits sum.splits)

lemma del_scan_all:
  assumes "\<forall>a \<in> set (emitted st). P a"
    and "\<And>f c v. f \<in> set files \<Longrightarrow> \<not> no_text c \<Longrightarrow> encode env c = Inr v
           \<Longrightarrow> P (del_doc env (file_name f) c v)"
  shows "\<forall>a \<in> set (emitted (fst (del_scan env files st))). P a"
  using assms
proof (induction files arbitrary: st)
  case Nil
  then show ?case by simp
next
  case (Cons f files)
  have 1: "\<forall>a \<in> set (emitted (fst (del_file env f st))). P a"
    using Cons.prems by (intro del_file_all) auto
  show ?case
  proof (cases "del_file env f st")
    case (Pair st' r)
    with 1 have 2: "\<forall>a \<in> set (emitted st'). P a" by simp
    show ?thesis
    proof (cases r)
      case None
      with Pair Cons.IH [OF 2] Cons.prems(2) show ?thesis by simp
    next
      case (Some e)
      with Pair 2 show ?thesis by simp
    qed
  qed
qed

lemma del_scan_calls:
  "\<exists>bs. calls (fst (del_scan env files st)) = calls st @ map Bulk bs"
proof (induction files arbitrary: st)
  case Nil
  show ?case by (rule exI [where x = "[]"]) simp
next
  case (Cons f files)
  obtain st' r where d: "del_file env f st = (st', r)" by (cases "del_file env f st") auto
  obtain bs where b: "calls st' = calls st @ map Bulk bs"
    using del_file_calls [of env f st] d by auto
  show ?case
  proof (cases r)
    case None
    obtain bs' where "calls (fst (del_scan env files st')) = calls st' @ map Bulk bs'"
      using Cons.IH by blast
    with None d b show ?thesis
      by (intro exI [where x = "bs @ bs'"]) simp
  next
    case (Some e)
    with d b show ?thesis by (intro exI [where x = bs]) simp
  qed
qed

lemma del_startup_calls:
  "del_startup h = Inl st \<or> del_startup h = Inr st \<Longrightarrow>
     (calls st = [] \<or> calls st = [Ping]) \<and> all_actions st = []"
  by (auto simp: del_startup_def Let_def logging_def init_state_def
           split: if_splits option.splits)

lemma del_main_calls:
  fixes env :: "'a env"
  shows "\<exists>bs. calls (snd (del_main h env files)) = map Bulk bs
         \<or> calls (snd (del_main h env files)) = Ping # map Bulk bs"
proof (cases "del_startup h :: 'a state + 'a state")
  case (Inl st)
  with del_startup_calls [of h st] show ?thesis
    by (intro exI [where x = "[]"]) (auto simp: del_main_def)
next
  case (Inr st)
  obtain st5 r where s: "del_scan env files st = (st5, r)" by (cases "del_scan env files st") auto
  obtain bs where b: "calls st5 = calls st @ map Bulk bs"
    using del_scan_calls [of env files st] s by auto
  show ?thesis
  proof (cases r)
    case (Some e)
    with Inr s b del_startup_calls [of h st] show ?thesis
      by (intro exI [where x = bs]) (auto simp: del_main_def)
  next
    case None
    with Inr s b del_startup_calls [of h st] show ?thesis
      by (intro exI [where x = "bs @ (if all_actions st5 = [] then [] else [all_actions st5])"])
         (auto simp: del_main_def Let_def del_final_calls)
  qed
qed

lemma del_main_all:
  fixes env :: "'a env"
  assumes "\<And>f c v. f \<in> set files \<Longrightarrow> \<not> no_text c \<Longrightarrow> encode env c = Inr v
             \<Longrightarrow> P (del_doc env (file_name f) c v)"
  shows "\<forall>a \<in> set (emitted (snd (del_main h env files))). P a"
proof (cases "del_startup h :: 'a state + 'a state")
  case (Inl st)
  with del_startup_calls [of h st] show ?thesis
    by (auto simp: del_main_def emitted_def batches_def)
next
  case (Inr st)
  with del_startup_calls [of h st] have "\<forall>a \<in> set (emitted st). P a"
    by (auto simp: emitted_def batches_def)
  then have "\<forall>a \<in> set (emitted (fst (del_scan env files st))). P a"
    using assms by (rule del_scan_all)
  with Inr show ?thesis
    by (auto simp: del_main_def Let_def del_final_set split: prod.splits option.splits)
qed
section \<open>delete\_index.py deletes nothing\<close>

text \<open>
  C9. Every request delete\_index.py sends to the store is the ping of the start or a
  bulk request, and every action of every bulk request names the index
  \<open>rag_documents\<close> and has no \<open>"_op_type"\<close> key, which makes it an index (write)
  action. No other request exists in the script: nothing is deleted.
\<close>

theorem delete_index_sends_only_index_actions:
  "\<forall>c \<in> set (calls (snd (del_main h env files))).
     c = Ping
     \<or> (\<exists>b. c = Bulk b
            \<and> (\<forall>a \<in> set b. map_of a ''_index'' = Some (Str ''rag_documents'')
                            \<and> map_of a ''_op_type'' = None \<and> op_type a = ''index''))"
proof
  fix c
  assume c: "c \<in> set (calls (snd (del_main h env files)))"
  let ?P = "\<lambda>a :: 'a action. map_of a ''_index'' = Some (Str ''rag_documents'')
                            \<and> map_of a ''_op_type'' = None \<and> op_type a = ''index''"
  have all: "\<forall>a \<in> set (emitted (snd (del_main h env files))). ?P a"
    by (rule del_main_all) (simp add: del_doc_def op_type_def)
  from del_main_calls [of h env files] c
  have "c = Ping \<or> (\<exists>b. c = Bulk b)" by auto
  then show "c = Ping \<or> (\<exists>b. c = Bulk b \<and> (\<forall>a \<in> set b. ?P a))"
  proof
    assume "c = Ping"
    then show ?thesis by simp
  next
    assume "\<exists>b. c = Bulk b"
    then obtain b where b: "c = Bulk b" by blast
    with c have "b \<in> set (batches (snd (del_main h env files)))"
      by (simp add: in_batches)
    with all have "\<forall>a \<in> set b. ?P a"
      by (auto simp: set_emitted)
    with b show ?thesis by blast
  qed
qed

lemma a_txt_fields [simp]:
  "is_file a_txt" "file_name a_txt = ''a.txt''" "suffix a_txt = ''.txt''"
  "relative_file a_txt = ''a.txt''" "relative_path a_txt = ''.''"
  "st_mtime a_txt = ''1700000000.5''"
  "read_text_strict a_txt = Inr ''one bad two''" "read_text_ignore a_txt = Inr ''one bad two''"
  by (simp_all add: a_txt_def)

lemma small_env_fields [simp]:
  "encode small_env ''one'' = Inr [1, 2, 3]" "encode small_env ''two'' = Inr [1, 2, 3]"
  "encode small_env ''bad'' = Inl (Exception ''model error'')"
  "split_text small_env ''one bad two'' = Inr [''one'', ''bad'', ''two'']"
  "bulk small_env n actions = Inr (length actions, [])"
  by (simp_all add: small_env_def)

lemma no_text_one_bad_two [simp]: "\<not> no_text ''one bad two''"
  by (simp add: no_text_def isspace_def space_char_def)

lemma del_main_small_calls:
  "calls (snd (del_main ok_host small_env [a_txt])) =
     [Ping, Bulk [del_doc small_env ''a.txt'' ''one'' [1, 2, 3],
                  del_doc small_env ''a.txt'' ''two'' [1, 2, 3]]]"
proof -
  have s: "del_startup ok_host = Inr st \<Longrightarrow> calls st = [Ping] \<and> all_actions st = []" for st :: "int state"
    by (auto simp: del_startup_def ok_host_def falsy_def Let_def logging_def init_state_def)
  obtain st :: "int state" where st: "del_startup ok_host = Inr st"
    by (simp add: del_startup_def ok_host_def falsy_def Let_def)
  have f: "calls (fst (del_file small_env a_txt st)) = [Ping]
           \<and> all_actions (fst (del_file small_env a_txt st)) =
               [del_doc small_env ''a.txt'' ''one'' [1, 2, 3],
                del_doc small_env ''a.txt'' ''two'' [1, 2, 3]]
           \<and> snd (del_file small_env a_txt st) = None"
    using s [OF st]
    by (simp add: del_file_def del_parse_def parse_text_file_def supported_suffixes_def Let_def
                  del_chunks_actions embedded_Cons del: del_chunks.simps)
  obtain st' where d: "del_file small_env a_txt st = (st', None)"
    using f by (cases "del_file small_env a_txt st") auto
  with f show ?thesis
    by (simp add: del_main_def st del_final_calls Let_def)
qed

theorem delete_index_sends_only_index_actions_witness:
  "calls (snd (del_main ok_host small_env [a_txt])) =
     [Ping, Bulk [del_doc small_env ''a.txt'' ''one'' [1, 2, 3],
                  del_doc small_env ''a.txt'' ''two'' [1, 2, 3]]]
   \<and> map_of (del_doc small_env ''a.txt'' ''one'' [1, 2, 3]) ''_index'' = Some (Str ''rag_documents'')
   \<and> op_type (del_doc small_env ''a.txt'' ''one'' [1, 2, 3]) = ''index''
   \<and> op_type (del_doc small_env ''a.txt'' ''two'' [1, 2, 3]) = ''index''"
  using delete_index_sends_only_index_actions [of ok_host small_env "[a_txt]"]
  by (simp add: del_main_small_calls)
section \<open>Identifiers of the actions\<close>

lemma embedded_same_indices:
  assumes "\<And>c. isl (encode env1 c) = isl (encode env2 c)"
  shows "map fst (embedded env1 i chunks) = map fst (embedded env2 i chunks)"
proof (induction chunks arbitrary: i)
  case Nil
  show ?case by simp
next
  case (Cons c cs)
  show ?case
    using assms [of c] Cons.IH [of "Suc i"]
    by (cases "encode env1 c"; cases "encode env2 c") (simp_all add: embedded_Cons)
qed

lemma chunk_action_id [simp]:
  "map_of (chunk_action env f full ct j c v) ''_id''
     = Some (Str (chunk_id (relative_file f) (st_mtime f) j))"
  by (simp add: chunk_action_def)

lemma file_action_id [simp]:
  "map_of (file_action env f full ct) ''_id'' = Some (Str (doc_id (relative_file f) (st_mtime f)))"
  by (simp add: file_action_def)

lemma produced_ids:
  "map (\<lambda>a. map_of a ''_id'') (produced env f) =
     (if \<not> is_file f then []
      else (case fst (get_file_content_and_type f) of
              (Some raw, Some ct) \<Rightarrow>
                if raw = [] \<or> ct = [] then []
                else if ct \<noteq> ''pdf_base64'' \<and> ct \<noteq> ''text'' then []
                else if no_text (fst (snd (idx_prepare env f raw ct)))
                  then [Some (Str (doc_id (relative_file f) (st_mtime f)))]
                else (case split_text env (fst (snd (idx_prepare env f raw ct))) of
                        Inl e \<Rightarrow> []
                      | Inr chunks \<Rightarrow>
                          map (\<lambda>j. Some (Str (chunk_id (relative_file f) (st_mtime f) j)))
                            (map fst (embedded env 0 chunks)))
            | _ \<Rightarrow> []))"
  unfolding produced_def idx_file_emitted_explicit [where st = init_state]
  by (auto simp: split_beta split: option.splits prod.splits sum.splits)

text \<open>
  C1. In index-in-elastic-cloud-old.py a file that is chunked gets, for each chunk that
  is embedded, the identifier \<open>chunk-<relative path>-<mtime>-<index>\<close>, where the
  index is the position of the chunk among the chunks of the file; so two runs that see
  the same file (same splitter, same chunks failing to embed), whatever their clock and
  the vectors, give its actions the same identifiers in the same order. A run submits
  exactly the actions of its files. In delete\_index.py no action built has an
  \<open>"_id"\<close> key, in the batches sent or in the buffer.
\<close>

theorem chunk_identifiers_deterministic:
  fixes env1 env2 :: "'v env" and env3 :: "'w env"
  shows "(is_file f \<and> get_file_content_and_type f = ((Some raw, Some ct), read_log)
            \<and> raw \<noteq> [] \<and> idx_prepare env1 f raw ct = (full, tfc, pdf_log)
            \<and> \<not> no_text tfc \<and> split_text env1 tfc = Inr chunks
          \<longrightarrow> map (\<lambda>a. map_of a ''_id'') (produced env1 f) =
                map (\<lambda>(j, c, v). Some (Str (chunk_id (relative_file f) (st_mtime f) j)))
                  (embedded env1 0 chunks))
       \<and> (split_text env1 = split_text env2 \<and> (\<forall>c. isl (encode env1 c) = isl (encode env2 c))
          \<longrightarrow> map (\<lambda>a. map_of a ''_id'') (produced env1 f) =
                map (\<lambda>a. map_of a ''_id'') (produced env2 f))
       \<and> concat (batches (snd (idx_main h env1 files))) =
           (case idx_startup h env1 of
              Inl st \<Rightarrow> []
            | Inr st \<Rightarrow> concat (map (produced env1) files))
       \<and> (\<forall>a \<in> set (emitted (snd (del_main h' env3 files'))). map_of a ''_id'' = None)"
proof (intro conjI impI)
  assume a: "is_file f \<and> get_file_content_and_type f = ((Some raw, Some ct), read_log)
            \<and> raw \<noteq> [] \<and> idx_prepare env1 f raw ct = (full, tfc, pdf_log)
            \<and> \<not> no_text tfc \<and> split_text env1 tfc = Inr chunks"
  then have "ct = ''pdf_base64'' \<or> ct = ''text''"
    by (auto simp: get_file_content_and_type_def split: if_splits sum.splits)
  with a show "map (\<lambda>a. map_of a ''_id'') (produced env1 f) =
                map (\<lambda>(j, c, v). Some (Str (chunk_id (relative_file f) (st_mtime f) j)))
                  (embedded env1 0 chunks)"
    by (auto simp: produced_ids split_beta)
next
  assume s: "split_text env1 = split_text env2 \<and> (\<forall>c. isl (encode env1 c) = isl (encode env2 c))"
  then have e: "map fst (embedded env1 0 chunks) = map fst (embedded env2 0 chunks)" for chunks
    by (intro embedded_same_indices) simp
  have p: "fst (snd (idx_prepare env1 f raw ct)) = fst (snd (idx_prepare env2 f raw ct))" for raw ct
    by (rule idx_prepare_text)
  show "map (\<lambda>a. map_of a ''_id'') (produced env1 f) = map (\<lambda>a. map_of a ''_id'') (produced env2 f)"
    unfolding produced_ids using s by (simp add: e p cong: if_cong option.case_cong sum.case_cong)
next
  show "concat (batches (snd (idx_main h env1 files))) =
           (case idx_startup h env1 of
              Inl st \<Rightarrow> []
            | Inr st \<Rightarrow> concat (map (produced env1) files))"
    by (rule idx_main_submitted)
next
  show "\<forall>a \<in> set (emitted (snd (del_main h' env3 files'))). map_of a ''_id'' = None"
    by (rule del_main_all) (simp add: del_doc_def)
qed
lemma later_env_fields [simp]:
  "encode later_env ''one'' = Inr [4, 5, 6]" "encode later_env ''two'' = Inr [4, 5, 6]"
  "encode later_env ''bad'' = Inl (Exception ''out of memory'')"
  "split_text later_env ''one bad two'' = Inr [''one'', ''bad'', ''two'']"
  by (simp_all add: later_env_def)

lemma chunk_id_0_2:
  "chunk_id ''a.txt'' ''1700000000.5'' 0 = ''chunk-a.txt-1700000000.5-0''"
  "chunk_id ''a.txt'' ''1700000000.5'' 2 = ''chunk-a.txt-1700000000.5-2''"
  by code_simp+

lemma a_txt_read:
  "get_file_content_and_type a_txt = ((Some ''one bad two'', Some ''text''), [])"
  by (simp add: get_file_content_and_type_def text_suffixes_def)

theorem chunk_identifiers_deterministic_witness:
  "map (\<lambda>a. map_of a ''_id'') (produced small_env a_txt) =
     [Some (Str ''chunk-a.txt-1700000000.5-0''), Some (Str ''chunk-a.txt-1700000000.5-2'')]
   \<and> map (\<lambda>a. map_of a ''_id'') (produced later_env a_txt) =
     [Some (Str ''chunk-a.txt-1700000000.5-0''), Some (Str ''chunk-a.txt-1700000000.5-2'')]
   \<and> map (\<lambda>a. map_of a ''_id'') (concat (batches (snd (del_main ok_host small_env [a_txt])))) =
     [None, None]"
proof -
  note T = chunk_identifiers_deterministic
             [where f = a_txt and raw = "''one bad two''" and ct = "''text''" and read_log = "[]"
                and ?env1.0 = small_env and ?env2.0 = later_env and full = "''one bad two''"
                and tfc = "''one bad two''" and pdf_log = "[]"
                and chunks = "[''one'', ''bad'', ''two'']"
                and h' = ok_host and ?env3.0 = small_env and files' = "[a_txt]"]
  have pre: "idx_prepare small_env a_txt ''one bad two'' ''text''
               = (''one bad two'', ''one bad two'', [])"
    by (simp add: idx_prepare_def)
  have same: "split_text small_env = split_text later_env
              \<and> (\<forall>c. isl (encode small_env c) = isl (encode later_env c))"
    by (simp add: small_env_def later_env_def)
  have emb: "embedded small_env 0 [''one'', ''bad'', ''two'']
               = [(0, ''one'', [1, 2, 3]), (2, ''two'', [1, 2, 3])]"
    by (simp add: embedded_Cons)
  have 1: "map (\<lambda>a. map_of a ''_id'') (produced small_env a_txt) =
             [Some (Str ''chunk-a.txt-1700000000.5-0''), Some (Str ''chunk-a.txt-1700000000.5-2'')]"
    using T [THEN conjunct1] by (simp add: a_txt_read pre emb chunk_id_0_2)
  have 2: "map (\<lambda>a. map_of a ''_id'') (produced small_env a_txt) =
             map (\<lambda>a. map_of a ''_id'') (produced later_env a_txt)"
    using T [THEN conjunct2, THEN conjunct1] same by blast
  have b: "batches (snd (del_main ok_host small_env [a_txt])) =
             [[del_doc small_env ''a.txt'' ''one'' [1, 2, 3],
               del_doc small_env ''a.txt'' ''two'' [1, 2, 3]]]"
    by (simp add: batches_def del_main_small_calls)
  have 3: "map (\<lambda>a. map_of a ''_id'') (concat (batches (snd (del_main ok_host small_env [a_txt]))))
             = [None, None]"
    using T [THEN conjunct2, THEN conjunct2, THEN conjunct2] by (simp add: set_emitted b)
  from 1 2 3 show ?thesis by simp
qed

section \<open>Facts about the concrete host\<close>

lemma ok_host_starts:
  "\<exists>st. idx_startup ok_host env = Inr st"
  by (simp add: idx_startup_def ok_host_def falsy_def Let_def)

section \<open>A file without text\<close>

lemma get_file_content_and_type_types:
  "get_file_content_and_type f = ((Some raw, Some ct), read_log)
     \<Longrightarrow> ct = ''pdf_base64'' \<or> ct = ''text''"
  by (auto simp: get_file_content_and_type_def split: if_splits sum.splits)

lemma idx_prepare_update [simp]:
  "idx_prepare (env\<lparr>encode := enc, split_text := spl\<rparr>) f raw ct = idx_prepare env f raw ct"
  by (simp add: idx_prepare_def)

lemma file_action_update [simp]:
  "file_action (env\<lparr>encode := enc, split_text := spl\<rparr>) f full ct = file_action env f full ct"
  by (simp add: file_action_def)

text \<open>
  C5, as amended. For a file whose extracted text is empty or all whitespace neither
  script splits or embeds anything (the result does not depend on the splitter or the
  model) and a warning is logged. delete\_index.py adds no action for the file.
  index-in-elastic-cloud-old.py adds exactly one action for it, the metadata action with
  the identifier \<open>file-<relative path>-<mtime>\<close>, the full content and no chunk text or
  vector, and sends no request at that point; only when the content read is itself empty
  or missing does it add nothing.
\<close>

theorem file_without_text:
  fixes env :: "'v env"
  shows
  "(no_text (fst (del_parse f))
      \<longrightarrow> all_actions (fst (del_file env f st)) = all_actions st
          \<and> calls (fst (del_file env f st)) = calls st
          \<and> snd (del_file env f st) = None
          \<and> del_file (env\<lparr>encode := enc, split_text := spl\<rparr>) f st = del_file env f st
          \<and> (is_file f \<and> suffix f \<in> set supported_suffixes
               \<longrightarrow> (WARNING, ''No text extracted from '' @ file_name f @ ''. Skipping.'')
                     \<in> set (log (fst (del_file env f st)))))
   \<and> (is_file f \<and> get_file_content_and_type f = ((Some raw, Some ct), read_log) \<and> raw \<noteq> []
        \<and> idx_prepare env f raw ct = (full, tfc, pdf_log) \<and> no_text tfc
      \<longrightarrow> all_actions (idx_file env f st) = all_actions st @ [file_action env f full ct]
          \<and> calls (idx_file env f st) = calls st
          \<and> idx_file (env\<lparr>encode := enc, split_text := spl\<rparr>) f st = idx_file env f st
          \<and> (WARNING, ''  No text available for chunking in '' @ file_name f
                       @ ''. Indexing document without chunks.'') \<in> set (log (idx_file env f st))
          \<and> map_of (file_action env f full ct) ''_id''
              = Some (Str (doc_id (relative_file f) (st_mtime f)))
          \<and> source_field (file_action env f full ct) ''content'' = Some (Str full)
          \<and> source_field (file_action env f full ct) ''chunk_text'' = Some Null
          \<and> source_field (file_action env f full ct) ''chunk_vector'' = Some Null)
   \<and> (is_file f \<and> (fst (fst (get_file_content_and_type f)) = None
                    \<or> fst (fst (get_file_content_and_type f)) = Some [])
      \<longrightarrow> all_actions (idx_file env f st) = all_actions st
          \<and> calls (idx_file env f st) = calls st)"
proof (intro conjI impI)
  assume n: "no_text (fst (del_parse f))"
  then show "all_actions (fst (del_file env f st)) = all_actions st"
    and "calls (fst (del_file env f st)) = calls st"
    and "snd (del_file env f st) = None"
    and "del_file (env\<lparr>encode := enc, split_text := spl\<rparr>) f st = del_file env f st"
    by (simp_all add: del_file_def Let_def split_beta)
  assume "is_file f \<and> suffix f \<in> set supported_suffixes"
  with n show "(WARNING, ''No text extracted from '' @ file_name f @ ''. Skipping.'')
                 \<in> set (log (fst (del_file env f st)))"
    by (simp add: del_file_def Let_def split_beta)
next
  assume a: "is_file f \<and> get_file_content_and_type f = ((Some raw, Some ct), read_log)
        \<and> raw \<noteq> [] \<and> idx_prepare env f raw ct = (full, tfc, pdf_log) \<and> no_text tfc"
  then have t: "ct = ''pdf_base64'' \<or> ct = ''text''"
    using get_file_content_and_type_types by blast
  then have ne: "ct \<noteq> []" by auto
  from a t ne show "all_actions (idx_file env f st) = all_actions st @ [file_action env f full ct]"
    and "calls (idx_file env f st) = calls st"
    and "idx_file (env\<lparr>encode := enc, split_text := spl\<rparr>) f st = idx_file env f st"
    and "(WARNING, ''  No text available for chunking in '' @ file_name f
                       @ ''. Indexing document without chunks.'') \<in> set (log (idx_file env f st))"
    by (auto simp: idx_file_def idx_content_def Let_def)
  show "map_of (file_action env f full ct) ''_id''
          = Some (Str (doc_id (relative_file f) (st_mtime f)))"
    and "source_field (file_action env f full ct) ''content'' = Some (Str full)"
    and "source_field (file_action env f full ct) ''chunk_text'' = Some Null"
    and "source_field (file_action env f full ct) ''chunk_vector'' = Some Null"
    by (simp_all add: file_action_def source_field_def)
next
  assume e: "is_file f \<and> (fst (fst (get_file_content_and_type f)) = None
                    \<or> fst (fst (get_file_content_and_type f)) = Some [])"
  obtain r c read_log where g: "get_file_content_and_type f = ((r, c), read_log)"
    by (cases "get_file_content_and_type f") auto
  with e show "all_actions (idx_file env f st) = all_actions st"
    and "calls (idx_file env f st) = calls st"
    by (auto simp: idx_file_def Let_def split: option.splits)
qed
lemma blank_txt_fields [simp]:
  "is_file blank_txt" "file_name blank_txt = ''blank.txt''" "suffix blank_txt = ''.txt''"
  "relative_file blank_txt = ''blank.txt''" "relative_path blank_txt = ''.''"
  "st_mtime blank_txt = ''1700000001.0''"
  "read_text_strict blank_txt = Inr ''  ''" "read_text_ignore blank_txt = Inr ''  ''"
  by (simp_all add: blank_txt_def)

lemma no_text_blank [simp]: "no_text ''  ''"
  by (simp add: no_text_def isspace_def space_char_def)

lemma blank_txt_read:
  "get_file_content_and_type blank_txt = ((Some ''  '', Some ''text''), [])"
  by (simp add: get_file_content_and_type_def text_suffixes_def)

lemma blank_txt_parse: "del_parse blank_txt = (''  '', [])"
  by (simp add: del_parse_def parse_text_file_def)

theorem file_without_text_witness:
  "no_text (fst (del_parse blank_txt))
   \<and> all_actions (fst (del_file small_env blank_txt init_state)) = []
   \<and> calls (fst (del_file small_env blank_txt init_state)) = []
   \<and> (WARNING, ''No text extracted from blank.txt. Skipping.'')
       \<in> set (log (fst (del_file small_env blank_txt init_state)))
   \<and> get_file_content_and_type blank_txt = ((Some ''  '', Some ''text''), [])
   \<and> idx_prepare small_env blank_txt ''  '' ''text'' = (''  '', ''  '', [])
   \<and> all_actions (idx_file small_env blank_txt init_state)
       = [file_action small_env blank_txt ''  '' ''text'']
   \<and> calls (idx_file small_env blank_txt init_state) = []
   \<and> fst (fst (get_file_content_and_type (blank_txt\<lparr>suffix := ''.bin''\<rparr>))) = None
   \<and> all_actions (idx_file small_env (blank_txt\<lparr>suffix := ''.bin''\<rparr>) init_state) = []"
proof -
  note T = file_without_text
             [where f = blank_txt and env = small_env and st = init_state and raw = "''  ''"
                and ct = "''text''" and read_log = "[]" and full = "''  ''" and tfc = "''  ''"
                and pdf_log = "[]" and enc = "encode small_env"
                and spl = "split_text small_env"]
  have pre: "idx_prepare small_env blank_txt ''  '' ''text'' = (''  '', ''  '', [])"
    by (simp add: idx_prepare_def)
  have sup: "''.txt'' \<in> set supported_suffixes"
    by (simp add: supported_suffixes_def)
  have i: "all_actions (init_state :: int state) = []" "calls (init_state :: int state) = []"
    by (simp_all add: init_state_def)
  have bin: "fst (fst (get_file_content_and_type (blank_txt\<lparr>suffix := ''.bin''\<rparr>))) = None"
    by (simp add: get_file_content_and_type_def text_suffixes_def)
  have 3: "all_actions (idx_file small_env (blank_txt\<lparr>suffix := ''.bin''\<rparr>) init_state) = []"
    using file_without_text
            [where f = "blank_txt\<lparr>suffix := ''.bin''\<rparr>" and env = small_env
               and st = init_state, THEN conjunct2, THEN conjunct2]
    by (simp add: bin i)
  from T [THEN conjunct1] T [THEN conjunct2, THEN conjunct1] 3
  show ?thesis
    by (simp add: blank_txt_parse blank_txt_read pre sup i bin)
qed

text \<open>
  C5 as stated fails for index-in-elastic-cloud-old.py: for a text file holding two
  spaces the script builds one index action and submits it.
\<close>

theorem blank_file_is_indexed:
  "no_text ''  ''
   \<and> read_text_ignore blank_txt = Inr ''  ''
   \<and> produced small_env blank_txt = [file_action small_env blank_txt ''  '' ''text'']
   \<and> concat (batches (snd (idx_main ok_host small_env [blank_txt])))
       = [file_action small_env blank_txt ''  '' ''text'']"
proof -
  obtain st :: "int state" where st: "idx_startup ok_host small_env = Inr st"
    using ok_host_starts by blast
  have p: "produced small_env blank_txt = [file_action small_env blank_txt ''  '' ''text'']"
    unfolding produced_def idx_file_emitted_explicit [where st = init_state]
    by (simp add: blank_txt_read idx_prepare_def)
  show ?thesis
    by (simp add: p idx_main_submitted st)
qed
section \<open>Batches\<close>

lemma embedded_replicate:
  assumes "\<not> no_text c" and "encode env c = Inr v"
  shows "embedded env i (replicate n c) = map (\<lambda>j. (j, c, v)) [i..<i + n]"
proof (induction n arbitrary: i)
  case 0
  show ?case by simp
next
  case (Suc n)
  show ?case
    using assms Suc [of "Suc i"] by (simp add: embedded_Cons upt_conv_Cons)
qed

lemma docs_replicate:
  assumes "\<not> no_text c" and "encode env c = Inr v"
  shows "map (\<lambda>(j, c, v). del_doc env fname c v) (embedded env i (replicate n c))
           = replicate n (del_doc env fname c v)"
  by (simp add: embedded_replicate [OF assms] map_replicate_const o_def)

text \<open>
  What the two scripts do with a batch. index-in-elastic-cloud-old.py empties the buffer
  whatever \<open>bulk\<close> does; delete\_index.py empties it when \<open>bulk\<close> returns and keeps it
  when \<open>bulk\<close> raises.
\<close>

lemma idx_flush_empties:
  "all_actions (idx_flush env st) = [] \<and> calls (idx_flush env st) = calls st @ [Bulk (all_actions st)]"
  by (simp add: idx_flush_def Let_def logging_def split: sum.splits prod.splits)

lemma del_flush_buffer:
  "all_actions (del_flush env st) =
     (case bulk env (length (calls st)) (all_actions st) of
        Inr result \<Rightarrow> []
      | Inl e \<Rightarrow> all_actions st)"
  by (simp add: del_flush_def Let_def logging_def split: sum.splits prod.splits)

lemma del_file_text:
  assumes "is_file f" and "suffix f = ''.txt''" and "read_text_strict f = Inr t"
    and "\<not> no_text t" and "split_text env t = Inr chunks" and "chunks \<noteq> []"
    and "buf = all_actions st @ map (\<lambda>(j, c, v). del_doc env (file_name f) c v)
                                  (embedded env 0 chunks)"
  shows "snd (del_file env f st) = None"
    and "length buf < 1000 \<Longrightarrow> all_actions (fst (del_file env f st)) = buf"
    and "length buf < 1000 \<Longrightarrow> calls (fst (del_file env f st)) = calls st"
    and "1000 \<le> length buf \<Longrightarrow> calls (fst (del_file env f st)) = calls st @ [Bulk buf]"
    and "1000 \<le> length buf \<Longrightarrow> all_actions (fst (del_file env f st)) =
           (case bulk env (length (calls st)) buf of Inr result \<Rightarrow> [] | Inl e \<Rightarrow> buf)"
  using assms
  by (simp_all add: del_file_def del_parse_def parse_text_file_def supported_suffixes_def Let_def
                    del_chunks_actions del_flush_calls del_flush_buffer
               del: del_chunks.simps split: sum.splits)

lemma big_env_fields [simp]:
  "encode big_env ''x'' = Inr [1, 2, 3]" "encode big_env ''y'' = Inr [1, 2, 3]"
  "split_text big_env ''big'' = Inr (replicate 1000 ''x'')"
  "split_text big_env ''y'' = Inr [''y'']"
  "bulk big_env n actions = (if length actions = 1000 then Inl (Exception ''connection timed out'')
                             else Inr (length actions, []))"
  by (simp_all add: big_env_def small_env_def)

lemma big_files [simp]:
  "is_file big_txt" "file_name big_txt = ''big.txt''" "suffix big_txt = ''.txt''"
  "read_text_strict big_txt = Inr ''big''" "read_text_ignore big_txt = Inr ''big''"
  "is_file tail_txt" "file_name tail_txt = ''tail.txt''" "suffix tail_txt = ''.txt''"
  "read_text_strict tail_txt = Inr ''y''" "read_text_ignore tail_txt = Inr ''y''"
  by (simp_all add: big_txt_def tail_txt_def)

lemma no_text_big [simp]: "\<not> no_text ''big''" "\<not> no_text ''x''" "\<not> no_text ''y''"
  by (simp_all add: no_text_def isspace_def space_char_def)

text \<open>
  C4 on delete\_index.py, at a run whose first bulk request fails: the 1000 actions of
  that request stay in the buffer and are sent again, with the action of the next file,
  in the second request.
\<close>

theorem delete_index_resubmits_failed_batch:
  "batches (snd (del_main ok_host big_env [big_txt, tail_txt])) =
     [replicate 1000 (del_doc big_env ''big.txt'' ''x'' [1, 2, 3]),
      replicate 1000 (del_doc big_env ''big.txt'' ''x'' [1, 2, 3])
        @ [del_doc big_env ''tail.txt'' ''y'' [1, 2, 3]]]"
proof -
  let ?b = "replicate 1000 (del_doc big_env ''big.txt'' ''x'' [1, 2, 3])"
  let ?d = "del_doc big_env ''tail.txt'' ''y'' [1, 2, 3]"
  obtain st0 :: "int state" where st0: "del_startup ok_host = Inr st0"
    by (simp add: del_startup_def ok_host_def falsy_def Let_def)
  then have s0: "calls st0 = [Ping]" "all_actions st0 = []"
    by (auto simp: del_startup_def ok_host_def falsy_def Let_def logging_def init_state_def)
  obtain st1 r1 where f1: "del_file big_env big_txt st0 = (st1, r1)"
    by (cases "del_file big_env big_txt st0") auto
  have b1: "?b = all_actions st0 @ map (\<lambda>(j, c, v). del_doc big_env (file_name big_txt) c v)
                                      (embedded big_env 0 (replicate 1000 ''x''))"
    by (simp add: s0 docs_replicate)
  have l1: "1000 \<le> length ?b" by simp
  have ne: "replicate 1000 ''x'' \<noteq> []" by simp
  note D1 = del_file_text [where f = big_txt and env = big_env and st = st0 and t = "''big''"
                             and chunks = "replicate 1000 ''x''" and buf = ?b,
                           OF _ _ _ _ _ ne b1]
  have s1: "r1 = None" "calls st1 = [Ping, Bulk ?b]" "all_actions st1 = ?b"
    using D1(1) D1(4) [OF _ _ _ _ _ l1] D1(5) [OF _ _ _ _ _ l1] f1 by (simp_all add: s0)
  obtain st2 r2 where f2: "del_file big_env tail_txt st1 = (st2, r2)"
    by (cases "del_file big_env tail_txt st1") auto
  have b2: "?b @ [?d] = all_actions st1 @ map (\<lambda>(j, c, v). del_doc big_env (file_name tail_txt) c v)
                                            (embedded big_env 0 [''y''])"
    by (simp add: s1 embedded_Cons)
  have l2: "1000 \<le> length (?b @ [?d])" by simp
  have ne2: "[''y''] \<noteq> []" by simp
  note D2 = del_file_text [where f = tail_txt and env = big_env and st = st1 and t = "''y''"
                             and chunks = "[''y'']" and buf = "?b @ [?d]",
                           OF _ _ _ _ _ ne2 b2]
  have s2: "r2 = None" "calls st2 = [Ping, Bulk ?b, Bulk (?b @ [?d])]" "all_actions st2 = []"
    using D2(1) D2(4) [OF _ _ _ _ _ l2] D2(5) [OF _ _ _ _ _ l2] f2 by (simp_all add: s1)
  have "calls (snd (del_main ok_host big_env [big_txt, tail_txt])) =
          [Ping, Bulk ?b, Bulk (?b @ [?d])]"
    by (simp add: del_main_def st0 f1 s1 f2 s2 Let_def del_final_calls)
  then show ?thesis
    by (simp add: batches_def)
qed
section \<open>The dimension of the vectors\<close>

lemma idx_startup_exit_emitted:
  "idx_startup h env = Inl st \<Longrightarrow> emitted st = []"
  by (auto simp: idx_startup_def Let_def emitted_def batches_def logging_def init_state_def
                 List.map_filter_def
           split: if_splits option.splits sum.splits bool.splits)

lemma idx_final_set: "set (emitted (idx_final env st)) = set (emitted st)"
  by (auto simp: idx_final_def Let_def emitted_def batches_def logging_def List.map_filter_def
           split: sum.splits prod.splits)

lemma idx_main_all:
  assumes "\<And>f full ct. P (file_action env f full ct)"
    and "\<And>f full ct j c v. \<not> no_text c \<Longrightarrow> encode env c = Inr v
           \<Longrightarrow> P (chunk_action env f full ct j c v)"
  shows "\<forall>a \<in> set (emitted (snd (idx_main h env files))). P a"
proof (cases "idx_startup h env")
  case (Inl st)
  then show ?thesis
    by (simp add: idx_main_def idx_startup_exit_emitted)
next
  case (Inr st)
  have "\<forall>a \<in> set (produced env f). P a" for f
    by (rule produced_all) (auto intro: assms)
  then have "\<forall>a \<in> set (emitted (idx_scan env files st')). P a" if "emitted st' = []" for st'
    using that by (auto simp: idx_scan_emitted)
  moreover have "emitted (logging entries st) = []" for entries
    using idx_startup_emitted [OF Inr] by simp
  ultimately have "\<forall>a \<in> set (emitted (idx_ingest env files st)). P a"
    unfolding idx_ingest_def idx_final_set by blast
  with Inr show ?thesis
    by (simp add: idx_main_def Let_def)
qed

lemma dim_env_fields [simp]:
  "encode dim_env c = Inr (replicate 384 0)"
  "split_text dim_env ''one bad two'' = Inr [''one'', ''bad'', ''two'']"
  "bulk dim_env n actions = Inr (length actions, [])"
  by (simp_all add: dim_env_def small_env_def)

text \<open>
  C7. Both scripts load the model \<open>sentence-transformers/all-MiniLM-L6-v2\<close>, whose
  vectors have the configured dimension, 384. With a model that returns vectors of that
  dimension, a chunk with text whose embedding call returns reaches the buffer with that
  vector, and every action either script ever holds in its buffer or hands to \<open>bulk\<close>
  carries the vector the model returned for its chunk text, of length 384; the only
  other action is the metadata action of index-in-elastic-cloud-old.py for a file
  without text, which has no vector at all. No action with a vector of another length is
  submitted.
\<close>

theorem submitted_vectors_have_the_configured_dimension:
  assumes model: "\<forall>c v. encode env c = Inr v \<longrightarrow> length v = EMBEDDING_DIM"
  shows
  "(\<not> no_text c \<and> encode env c = Inr v
      \<longrightarrow> all_actions (idx_chunk env f full ct i c st)
            = all_actions st @ [chunk_action env f full ct i c v]
          \<and> all_actions (del_chunk env f i c st)
            = all_actions st @ [del_doc env (file_name f) c v]
          \<and> source_field (chunk_action env f full ct i c v) ''chunk_vector'' = Some (Vec v)
          \<and> source_field (del_doc env (file_name f) c v) ''chunk_vector'' = Some (Vec v)
          \<and> length v = EMBEDDING_DIM)
   \<and> (\<forall>a \<in> set (emitted (snd (idx_main h env files))).
         source_field a ''chunk_vector'' = Some Null
         \<or> (\<exists>c v. encode env c = Inr v \<and> source_field a ''chunk_text'' = Some (Str c)
                   \<and> source_field a ''chunk_vector'' = Some (Vec v)
                   \<and> length v = EMBEDDING_DIM))
   \<and> (\<forall>a \<in> set (emitted (snd (del_main h' env files'))).
         \<exists>c v. encode env c = Inr v \<and> source_field a ''chunk_text'' = Some (Str c)
                \<and> source_field a ''chunk_vector'' = Some (Vec v)
                \<and> length v = EMBEDDING_DIM)"
proof -
  have dim: "length v' = EMBEDDING_DIM" if "encode env c' = Inr v'" for c' v'
    using model that by blast
  show ?thesis
  proof (intro conjI impI)
    assume h: "\<not> no_text c \<and> encode env c = Inr v"
    then show "all_actions (idx_chunk env f full ct i c st)
                 = all_actions st @ [chunk_action env f full ct i c v]"
      by (simp add: idx_chunk_def)
    from h show "all_actions (del_chunk env f i c st)
                   = all_actions st @ [del_doc env (file_name f) c v]"
      by (simp add: del_chunk_def)
    show "source_field (chunk_action env f full ct i c v) ''chunk_vector'' = Some (Vec v)"
      by (simp add: source_field_def chunk_action_def)
    show "source_field (del_doc env (file_name f) c v) ''chunk_vector'' = Some (Vec v)"
      by (simp add: source_field_def del_doc_def)
    show "length v = EMBEDDING_DIM"
      using h dim by blast
  next
    let ?Q = "\<lambda>a. \<exists>c v. encode env c = Inr v \<and> source_field a ''chunk_text'' = Some (Str c)
                     \<and> source_field a ''chunk_vector'' = Some (Vec v)
                     \<and> length v = EMBEDDING_DIM"
    show "\<forall>a \<in> set (emitted (snd (idx_main h env files))).
            source_field a ''chunk_vector'' = Some Null \<or> ?Q a"
    proof (rule idx_main_all)
      show "source_field (file_action env f' full' ct') ''chunk_vector'' = Some Null
            \<or> ?Q (file_action env f' full' ct')" for f' full' ct'
        by (simp add: source_field_def file_action_def)
      show "source_field (chunk_action env f' full' ct' j c' v') ''chunk_vector'' = Some Null
            \<or> ?Q (chunk_action env f' full' ct' j c' v')"
        if "encode env c' = Inr v'" for f' full' ct' j c' v'
        using that dim [OF that] by (simp add: source_field_def chunk_action_def)
    qed
    show "\<forall>a \<in> set (emitted (snd (del_main h' env files'))). ?Q a"
    proof (rule del_main_all)
      show "?Q (del_doc env (file_name f') c' v')" if "encode env c' = Inr v'" for f' c' v'
        using that dim [OF that] by (simp add: source_field_def del_doc_def)
    qed
  qed
qed

lemma del_main_dim_calls:
  "calls (snd (del_main ok_host dim_env [a_txt])) =
     [Ping, Bulk [del_doc dim_env ''a.txt'' ''one'' (replicate 384 0),
                  del_doc dim_env ''a.txt'' ''bad'' (replicate 384 0),
                  del_doc dim_env ''a.txt'' ''two'' (replicate 384 0)]]"
proof -
  have s: "del_startup ok_host = Inr st \<Longrightarrow> calls st = [Ping] \<and> all_actions st = []"
    for st :: "int state"
    by (auto simp: del_startup_def ok_host_def falsy_def Let_def logging_def init_state_def)
  obtain st :: "int state" where st: "del_startup ok_host = Inr st"
    by (simp add: del_startup_def ok_host_def falsy_def Let_def)
  have f: "calls (fst (del_file dim_env a_txt st)) = [Ping]
           \<and> all_actions (fst (del_file dim_env a_txt st)) =
               [del_doc dim_env ''a.txt'' ''one'' (replicate 384 0),
                del_doc dim_env ''a.txt'' ''bad'' (replicate 384 0),
                del_doc dim_env ''a.txt'' ''two'' (replicate 384 0)]
           \<and> snd (del_file dim_env a_txt st) = None"
    using s [OF st]
    by (simp add: del_file_def del_parse_def parse_text_file_def supported_suffixes_def Let_def
                  del_chunks_actions embedded_Cons del: del_chunks.simps)
  obtain st' where d: "del_file dim_env a_txt st = (st', None)"
    using f by (cases "del_file dim_env a_txt st") auto
  with f show ?thesis
    by (simp add: del_main_def st del_final_calls Let_def)
qed

theorem submitted_vectors_have_the_configured_dimension_witness:
  "\<not> no_text ''one'' \<and> encode dim_env ''one'' = Inr (replicate 384 0)
   \<and> length (replicate 384 (0::int)) = EMBEDDING_DIM
   \<and> all_actions (idx_chunk dim_env a_txt ''one bad two'' ''text'' 0 ''one'' init_state)
       = [chunk_action dim_env a_txt ''one bad two'' ''text'' 0 ''one'' (replicate 384 0)]
   \<and> all_actions (del_chunk dim_env a_txt 0 ''one'' init_state)
       = [del_doc dim_env ''a.txt'' ''one'' (replicate 384 0)]
   \<and> concat (batches (snd (idx_main ok_host dim_env [a_txt]))) =
       [chunk_action dim_env a_txt ''one bad two'' ''text'' 0 ''one'' (replicate 384 0),
        chunk_action dim_env a_txt ''one bad two'' ''text'' 1 ''bad'' (replicate 384 0),
        chunk_action dim_env a_txt ''one bad two'' ''text'' 2 ''two'' (replicate 384 0)]
   \<and> list_all (\<lambda>a. \<exists>v. source_field a ''chunk_vector'' = Some (Vec v) \<and> length v = EMBEDDING_DIM)
        (concat (batches (snd (idx_main ok_host dim_env [a_txt]))))
   \<and> batches (snd (del_main ok_host dim_env [a_txt])) =
       [[del_doc dim_env ''a.txt'' ''one'' (replicate 384 0),
         del_doc dim_env ''a.txt'' ''bad'' (replicate 384 0),
         del_doc dim_env ''a.txt'' ''two'' (replicate 384 0)]]
   \<and> list_all (\<lambda>a. \<exists>v. source_field a ''chunk_vector'' = Some (Vec v) \<and> length v = EMBEDDING_DIM)
        (concat (batches (snd (del_main ok_host dim_env [a_txt]))))"
proof -
  have d: "\<forall>c v. encode dim_env c = Inr v \<longrightarrow> length v = EMBEDDING_DIM"
    by (auto simp: EMBEDDING_DIM_def)
  note T = submitted_vectors_have_the_configured_dimension
             [where env = dim_env and c = "''one''" and v = "replicate 384 0" and h = ok_host
                and files = "[a_txt]" and f = a_txt and full = "''one bad two''"
                and ct = "''text''" and i = 0 and st = init_state and h' = ok_host
                and files' = "[a_txt]", OF d]
  obtain st :: "int state" where st: "idx_startup ok_host dim_env = Inr st"
    using ok_host_starts by blast
  have p: "produced dim_env a_txt =
       [chunk_action dim_env a_txt ''one bad two'' ''text'' 0 ''one'' (replicate 384 0),
        chunk_action dim_env a_txt ''one bad two'' ''text'' 1 ''bad'' (replicate 384 0),
        chunk_action dim_env a_txt ''one bad two'' ''text'' 2 ''two'' (replicate 384 0)]"
    unfolding produced_def idx_file_emitted_explicit [where st = init_state]
    by (simp add: a_txt_read idx_prepare_def embedded_Cons numeral_2_eq_2)
  have s: "concat (batches (snd (idx_main ok_host dim_env [a_txt]))) = produced dim_env a_txt"
    by (simp add: idx_main_submitted st)
  have b: "batches (snd (del_main ok_host dim_env [a_txt])) =
       [[del_doc dim_env ''a.txt'' ''one'' (replicate 384 0),
         del_doc dim_env ''a.txt'' ''bad'' (replicate 384 0),
         del_doc dim_env ''a.txt'' ''two'' (replicate 384 0)]]"
    by (simp add: batches_def del_main_dim_calls)
  have n: "\<not> no_text ''one'' \<and> encode dim_env ''one'' = Inr (replicate 384 0)"
    by simp
  have e: "all_actions (init_state :: int state) = []"
    by (simp add: init_state_def)
  note S = T [THEN conjunct1, THEN mp, OF n]
  have steps: "all_actions (idx_chunk dim_env a_txt ''one bad two'' ''text'' 0 ''one'' init_state)
       = [chunk_action dim_env a_txt ''one bad two'' ''text'' 0 ''one'' (replicate 384 0)]"
    "all_actions (del_chunk dim_env a_txt 0 ''one'' init_state)
       = [del_doc dim_env ''a.txt'' ''one'' (replicate 384 0)]"
    using S [THEN conjunct1] S [THEN conjunct2, THEN conjunct1] by (simp_all add: e)
  have v: "source_field (chunk_action dim_env a_txt ''one bad two'' ''text'' j c (replicate 384 0))
             ''chunk_vector'' = Some (Vec (replicate 384 0))"
          "source_field (del_doc dim_env ''a.txt'' c (replicate 384 0))
             ''chunk_vector'' = Some (Vec (replicate 384 0))" for j c
    by (simp_all add: source_field_def chunk_action_def del_doc_def)
  have i1: "list_all (\<lambda>a. \<exists>v. source_field a ''chunk_vector'' = Some (Vec v)
                             \<and> length v = EMBEDDING_DIM)
              (concat (batches (snd (idx_main ok_host dim_env [a_txt]))))"
    by (simp add: s p v EMBEDDING_DIM_def)
  have i2: "list_all (\<lambda>a. \<exists>v. source_field a ''chunk_vector'' = Some (Vec v)
                             \<and> length v = EMBEDDING_DIM)
              (concat (batches (snd (del_main ok_host dim_env [a_txt]))))"
    by (simp add: b v EMBEDDING_DIM_def)
  have l: "length (replicate 384 (0::int)) = EMBEDDING_DIM"
    by (simp add: EMBEDDING_DIM_def)
  from n l steps s [unfolded p] i1 b i2 show ?thesis
    by (intro conjI) (erule conjunct1, erule conjunct2)
qed

end
